theory Spec2Isabelle
  imports Complex_Main "HOL-Library.Product_Lexorder"
begin

section \<open>The relational aggregation subsystem of the sentiment analysis platform\<close>

text \<open>
  The subsystem is the PL/pgSQL part of the database initialisation script: the function
  \<^verbatim>\<open>sentiment_to_numeric\<close>, the set-returning functions \<^verbatim>\<open>calculate_sentiment_trend\<close>
  and \<^verbatim>\<open>analyze_keyword_frequency\<close>, the view \<^verbatim>\<open>company_sentiment_summary\<close>, the
  trigger function \<^verbatim>\<open>update_sentiment_trends\<close> with its trigger, and
  \<^verbatim>\<open>create_monthly_partition\<close>.

  A table is the list of its rows, a nullable column is an \<open>option\<close> (\<open>None\<close> is SQL
  NULL), and a query is the composition of its clauses in evaluation order: FROM and WHERE
  as \<open>filter\<close>, GROUP BY as the list of groups, the aggregates on each group, HAVING,
  ORDER BY as a sort, LIMIT as \<open>take\<close>. Where ORDER BY leaves the order of some rows open,
  or is absent, that order is the executor's and is a parameter of the query. NUMERIC
  values are carried exactly, as reals. A statement that PostgreSQL aborts with an error
  returns \<open>Inl\<close> of the error.
\<close>

subsection \<open>Tables and rows\<close>

text \<open>
  A calendar date is its day number; a timestamp counts microseconds, so that \<^verbatim>\<open>DATE(ts)\<close>
  is the day the timestamp falls in.
\<close>

type_synonym date = int
type_synonym timestamp = int

definition usecs_per_day :: int where
  "usecs_per_day = 86400000000"

definition DATE :: "timestamp \<Rightarrow> date" where
  "DATE ts = ts div usecs_per_day"

text \<open>\<^verbatim>\<open>CURRENT_DATE - INTERVAL 'n days'\<close>: midnight, \<open>n\<close> days before the day given.\<close>

definition minus_days :: "date \<Rightarrow> int \<Rightarrow> timestamp" where
  "minus_days d n = (d - n) * usecs_per_day"

text \<open>
  The columns of \<^verbatim>\<open>news_articles\<close>, \<^verbatim>\<open>sentiment_trends\<close> and \<^verbatim>\<open>companies\<close> that the
  script reads or writes. The tables are created elsewhere; label and stakeholder are
  enumeration columns that the script casts to text, so they are carried as text.
\<close>

record news_article =
  article_id :: int
  company_id :: int
  published_date :: timestamp
  sentiment_score :: "string option"
  stakeholder_type :: "string option"
  keywords_json :: "string list option"

record sentiment_trend =
  st_company_id :: int
  st_stakeholder_type :: "string option"
  st_date :: date
  total_articles :: nat
  positive_count :: nat
  negative_count :: nat
  neutral_count :: nat
  avg_sentiment_score :: "real option"

record company =
  c_id :: int
  c_name :: string
  stock_code :: "string option"
  is_active :: "bool option"

record database =
  news_articles :: "news_article list"
  sentiment_trends :: "sentiment_trend list"

subsection \<open>Aggregates\<close>

text \<open>\<^verbatim>\<open>GROUP BY f\<close>: one group for each distinct value of the grouping expression.\<close>

definition GROUP_BY :: "('a \<Rightarrow> 'k) \<Rightarrow> 'a list \<Rightarrow> ('k \<times> 'a list) list" where
  "GROUP_BY f rows = map (\<lambda>k. (k, filter (\<lambda>r. f r = k) rows)) (remdups (map f rows))"

text \<open>\<^verbatim>\<open>AVG\<close> over integers is NULL on no rows, and the exact quotient otherwise.\<close>

definition AVG :: "int list \<Rightarrow> real option" where
  "AVG vs = (if vs = [] then None else Some (of_int (sum_list vs) / of_nat (length vs)))"

text \<open>\<^verbatim>\<open>ROUND(v, s)\<close> on NUMERIC rounds half away from zero.\<close>

definition ROUND :: "real \<Rightarrow> nat \<Rightarrow> real" where
  "ROUND v s =
     (if 0 \<le> v then of_int \<lfloor>v * 10 ^ s + 1 / 2\<rfloor> / 10 ^ s
      else - (of_int \<lfloor>- v * 10 ^ s + 1 / 2\<rfloor> / 10 ^ s))"

subsection \<open>sentiment_to_numeric\<close>

text \<open>
  The function is not STRICT, so it runs on a NULL argument too; the simple CASE compares
  the argument with each label by \<open>=\<close>, which is never true of NULL, and falls to ELSE.
\<close>

definition sentiment_to_numeric :: "string option \<Rightarrow> int" where
  "sentiment_to_numeric sentiment_text =
     (if sentiment_text = Some ''very_negative'' then - 2
      else if sentiment_text = Some ''negative'' then - 1
      else if sentiment_text = Some ''neutral'' then 0
      else if sentiment_text = Some ''positive'' then 1
      else if sentiment_text = Some ''very_positive'' then 2
      else 0)"

subsection \<open>calculate_sentiment_trend\<close>

record trend_point =
  tp_date :: date
  tp_avg_sentiment :: "real option"
  tp_article_count :: nat
  tp_positive_ratio :: real

text \<open>The WHERE clause; a NULL stakeholder of the row never equals the filter.\<close>

definition trend_where :: "int \<Rightarrow> string option \<Rightarrow> date \<Rightarrow> date \<Rightarrow> news_article \<Rightarrow> bool" where
  "trend_where p_company_id p_stakeholder_type p_start_date p_end_date na =
     (company_id na = p_company_id
      \<and> (p_stakeholder_type = None \<or> stakeholder_type na = p_stakeholder_type)
      \<and> p_start_date \<le> DATE (published_date na) \<and> DATE (published_date na) \<le> p_end_date
      \<and> sentiment_score na \<noteq> None)"

text \<open>The select list on one group. A group is never empty, so the division is defined.\<close>

definition trend_point_of :: "date \<Rightarrow> news_article list \<Rightarrow> trend_point" where
  "trend_point_of d g =
     \<lparr>tp_date = d,
      tp_avg_sentiment =
        map_option (\<lambda>v. ROUND v 2) (AVG (map (\<lambda>na. sentiment_to_numeric (sentiment_score na)) g)),
      tp_article_count = length g,
      tp_positive_ratio =
        ROUND (of_nat (length (filter (\<lambda>na. sentiment_to_numeric (sentiment_score na) > 0) g))
               / of_nat (length g) * 100) 2\<rparr>"

definition calculate_sentiment_trend ::
    "news_article list \<Rightarrow> int \<Rightarrow> string option \<Rightarrow> date \<Rightarrow> date \<Rightarrow> trend_point list" where
  "calculate_sentiment_trend nas p_company_id p_stakeholder_type p_start_date p_end_date =
     map (\<lambda>(d, g). trend_point_of d g)
       (sort_key fst
         (GROUP_BY (\<lambda>na. DATE (published_date na))
           (filter (trend_where p_company_id p_stakeholder_type p_start_date p_end_date) nas)))"

subsection \<open>analyze_keyword_frequency\<close>

datatype pg_error = Invalid_row_count_in_limit_clause

record keyword_stat =
  kw_keyword :: string
  kw_frequency :: nat
  kw_avg_sentiment :: "real option"

text \<open>
  The FROM clause joins each article with the elements of its keyword array, one row for
  each element; the function is strict, so a NULL array gives no row.
\<close>

definition jsonb_array_elements_text :: "string list option \<Rightarrow> string list" where
  "jsonb_array_elements_text js = (case js of None \<Rightarrow> [] | Some elems \<Rightarrow> elems)"

definition keyword_from :: "news_article list \<Rightarrow> (news_article \<times> string) list" where
  "keyword_from nas =
     concat (map (\<lambda>na. map (\<lambda>keyword_item. (na, keyword_item))
                          (jsonb_array_elements_text (keywords_json na))) nas)"

definition keyword_where :: "int \<Rightarrow> date \<Rightarrow> date \<Rightarrow> news_article \<Rightarrow> bool" where
  "keyword_where p_company_id p_start_date p_end_date na =
     (company_id na = p_company_id
      \<and> p_start_date \<le> DATE (published_date na) \<and> DATE (published_date na) \<le> p_end_date
      \<and> keywords_json na \<noteq> None
      \<and> sentiment_score na \<noteq> None)"

definition keyword_stat_of :: "string \<Rightarrow> (news_article \<times> string) list \<Rightarrow> keyword_stat" where
  "keyword_stat_of k g =
     \<lparr>kw_keyword = k,
      kw_frequency = length g,
      kw_avg_sentiment =
        map_option (\<lambda>v. ROUND v 2)
          (AVG (map (\<lambda>(na, keyword_item). sentiment_to_numeric (sentiment_score na)) g))\<rparr>"

text \<open>
  ORDER BY frequency DESC, avg_sentiment DESC names the output columns, so the second key
  is the rounded mean; in descending order NULL comes first.
\<close>

definition keyword_order :: "keyword_stat \<Rightarrow> int \<times> nat \<times> real" where
  "keyword_order r =
     (- int (kw_frequency r),
      (case kw_avg_sentiment r of None \<Rightarrow> (0, 0) | Some v \<Rightarrow> (1, - v)))"

text \<open>LIMIT with a negative count is an error of the statement.\<close>

definition LIMIT :: "int \<Rightarrow> 'a list \<Rightarrow> pg_error + 'a list" where
  "LIMIT n rows = (if n < 0 then Inl Invalid_row_count_in_limit_clause else Inr (take (nat n) rows))"

text \<open>
  FROM and WHERE, then GROUP BY, HAVING and ORDER BY, then LIMIT. The query does not fix
  the order of rows that agree on both sort keys: PostgreSQL returns them in an order of
  the executor's choosing. That choice is the parameter \<open>tie\<close>, a rank that decides
  among such rows; every order of them is the result for some \<open>tie\<close>.
\<close>

definition keyword_rows ::
    "news_article list \<Rightarrow> int \<Rightarrow> date \<Rightarrow> date \<Rightarrow> (news_article \<times> string) list" where
  "keyword_rows nas p_company_id p_start_date p_end_date =
     filter (\<lambda>(na, keyword_item). keyword_where p_company_id p_start_date p_end_date na)
       (keyword_from nas)"

definition keyword_ranking ::
    "(keyword_stat \<Rightarrow> nat) \<Rightarrow> news_article list \<Rightarrow> int \<Rightarrow> date \<Rightarrow> date \<Rightarrow> keyword_stat list" where
  "keyword_ranking tie nas p_company_id p_start_date p_end_date =
     sort_key (\<lambda>r. (keyword_order r, tie r))
       (filter (\<lambda>r. kw_frequency r \<ge> 2)
         (map (\<lambda>(k, g). keyword_stat_of k g)
           (GROUP_BY snd (keyword_rows nas p_company_id p_start_date p_end_date))))"

definition analyze_keyword_frequency ::
    "(keyword_stat \<Rightarrow> nat) \<Rightarrow> news_article list \<Rightarrow> int \<Rightarrow> date \<Rightarrow> date \<Rightarrow> int
       \<Rightarrow> pg_error + keyword_stat list" where
  "analyze_keyword_frequency tie nas p_company_id p_start_date p_end_date p_limit =
     LIMIT p_limit (keyword_ranking tie nas p_company_id p_start_date p_end_date)"

text \<open>The call that leaves the limit to its default.\<close>

definition analyze_keyword_frequency_default ::
    "(keyword_stat \<Rightarrow> nat) \<Rightarrow> news_article list \<Rightarrow> int \<Rightarrow> date \<Rightarrow> date
       \<Rightarrow> pg_error + keyword_stat list" where
  "analyze_keyword_frequency_default tie nas p_company_id p_start_date p_end_date =
     analyze_keyword_frequency tie nas p_company_id p_start_date p_end_date 20"

subsection \<open>update_sentiment_trends and its trigger\<close>

text \<open>
  The SELECT of the trigger function, on the table as the AFTER trigger sees it (the
  written row included). \<open>=\<close> on the stakeholder holds of two equal non-NULL values only.
\<close>

definition trend_key_where :: "news_article \<Rightarrow> news_article \<Rightarrow> bool" where
  "trend_key_where NEW na =
     (company_id na = company_id NEW
      \<and> stakeholder_type na \<noteq> None \<and> stakeholder_type na = stakeholder_type NEW
      \<and> DATE (published_date na) = DATE (published_date NEW)
      \<and> sentiment_score na \<noteq> None)"

definition trend_row_of :: "news_article \<Rightarrow> news_article list \<Rightarrow> sentiment_trend" where
  "trend_row_of NEW g =
     \<lparr>st_company_id = company_id NEW,
      st_stakeholder_type = stakeholder_type NEW,
      st_date = DATE (published_date NEW),
      total_articles = length g,
      positive_count = length (filter (\<lambda>na. sentiment_to_numeric (sentiment_score na) > 0) g),
      negative_count = length (filter (\<lambda>na. sentiment_to_numeric (sentiment_score na) < 0) g),
      neutral_count = length (filter (\<lambda>na. sentiment_to_numeric (sentiment_score na) = 0) g),
      avg_sentiment_score = AVG (map (\<lambda>na. sentiment_to_numeric (sentiment_score na)) g)\<rparr>"

definition trend_select :: "news_article list \<Rightarrow> news_article \<Rightarrow> sentiment_trend list" where
  "trend_select nas NEW =
     map (\<lambda>(k, g). trend_row_of NEW g)
       (GROUP_BY (\<lambda>na. (company_id na, stakeholder_type na, DATE (published_date na)))
         (filter (trend_key_where NEW) nas))"

text \<open>
  \<^verbatim>\<open>ON CONFLICT (company_id, stakeholder_type, date)\<close>: a row conflicts with the stored
  row of the same key (a NULL stakeholder conflicts with nothing).
\<close>

definition conflicts :: "sentiment_trend \<Rightarrow> sentiment_trend \<Rightarrow> bool" where
  "conflicts EXCLUDED t =
     (st_company_id t = st_company_id EXCLUDED
      \<and> st_stakeholder_type t \<noteq> None \<and> st_stakeholder_type t = st_stakeholder_type EXCLUDED
      \<and> st_date t = st_date EXCLUDED)"

fun insert_on_conflict_update :: "sentiment_trend \<Rightarrow> sentiment_trend list \<Rightarrow> sentiment_trend list" where
  "insert_on_conflict_update EXCLUDED [] = [EXCLUDED]"
| "insert_on_conflict_update EXCLUDED (t # ts) =
     (if conflicts EXCLUDED t
      then t\<lparr>total_articles := total_articles EXCLUDED,
             positive_count := positive_count EXCLUDED,
             negative_count := negative_count EXCLUDED,
             neutral_count := neutral_count EXCLUDED,
             avg_sentiment_score := avg_sentiment_score EXCLUDED\<rparr> # ts
      else t # insert_on_conflict_update EXCLUDED ts)"

definition update_sentiment_trends :: "news_article \<Rightarrow> database \<Rightarrow> database" where
  "update_sentiment_trends NEW db =
     db\<lparr>sentiment_trends :=
          fold insert_on_conflict_update (trend_select (news_articles db) NEW) (sentiment_trends db)\<rparr>"

text \<open>
  The trigger: AFTER INSERT OR UPDATE OF sentiment_score, stakeholder_type, FOR EACH ROW,
  WHEN both columns of the new row are not NULL. An UPDATE fires it when its SET list
  names one of the two columns.
\<close>

datatype column = Col_company_id | Col_published_date | Col_sentiment_score
  | Col_stakeholder_type | Col_keywords

datatype trigger_event = INSERT | UPDATE "column list"

fun event_matches :: "trigger_event \<Rightarrow> bool" where
  "event_matches INSERT = True"
| "event_matches (UPDATE cols) = (Col_sentiment_score \<in> set cols \<or> Col_stakeholder_type \<in> set cols)"

definition trigger_update_sentiment_trends :: "trigger_event \<Rightarrow> news_article \<Rightarrow> database \<Rightarrow> database" where
  "trigger_update_sentiment_trends ev NEW db =
     (if event_matches ev \<and> sentiment_score NEW \<noteq> None \<and> stakeholder_type NEW \<noteq> None
      then update_sentiment_trends NEW db else db)"

text \<open>The two writes on \<^verbatim>\<open>news_articles\<close>: an INSERT of one row, and an UPDATE of the row of
  one id to new values, with the columns its SET list names.\<close>

definition insert_news_article :: "news_article \<Rightarrow> database \<Rightarrow> database" where
  "insert_news_article NEW db =
     trigger_update_sentiment_trends INSERT NEW (db\<lparr>news_articles := news_articles db @ [NEW]\<rparr>)"

definition update_news_article :: "column list \<Rightarrow> news_article \<Rightarrow> database \<Rightarrow> database" where
  "update_news_article cols NEW db =
     (let db' = db\<lparr>news_articles :=
                     map (\<lambda>na. if article_id na = article_id NEW then NEW else na) (news_articles db)\<rparr>
      in fold (\<lambda>na. trigger_update_sentiment_trends (UPDATE cols) NEW)
           (filter (\<lambda>na. article_id na = article_id NEW) (news_articles db)) db')"

definition empty_database :: database where
  "empty_database = \<lparr>news_articles = [], sentiment_trends = []\<rparr>"

subsection \<open>What the specification says of a bucket\<close>

text \<open>
  The specification's words, for comparison with the code: the three class counts add up
  to the total; a bucket is identified by company, stakeholder and date; and the bucket of
  a key is computed from the articles that share the key and carry a label.
\<close>

definition counts_partition :: "sentiment_trend \<Rightarrow> bool" where
  "counts_partition t = (positive_count t + negative_count t + neutral_count t = total_articles t)"

definition trend_key :: "sentiment_trend \<Rightarrow> int \<times> string option \<times> date" where
  "trend_key t = (st_company_id t, st_stakeholder_type t, st_date t)"

definition bucket_articles :: "news_article list \<Rightarrow> int \<Rightarrow> string \<Rightarrow> date \<Rightarrow> news_article list" where
  "bucket_articles nas c s d =
     filter (\<lambda>na. company_id na = c \<and> stakeholder_type na = Some s
                 \<and> DATE (published_date na) = d \<and> sentiment_score na \<noteq> None) nas"

definition bucket_of :: "news_article list \<Rightarrow> int \<Rightarrow> string \<Rightarrow> date \<Rightarrow> sentiment_trend" where
  "bucket_of nas c s d =
     (let S = bucket_articles nas c s d in
      \<lparr>st_company_id = c, st_stakeholder_type = Some s, st_date = d,
       total_articles = length S,
       positive_count = length (filter (\<lambda>na. sentiment_to_numeric (sentiment_score na) > 0) S),
       negative_count = length (filter (\<lambda>na. sentiment_to_numeric (sentiment_score na) < 0) S),
       neutral_count = length (filter (\<lambda>na. sentiment_to_numeric (sentiment_score na) = 0) S),
       avg_sentiment_score =
         Some (of_int (\<Sum>na\<leftarrow>S. sentiment_to_numeric (sentiment_score na)) / of_nat (length S))\<rparr>)"

text \<open>
  Rounding to two decimals: \<open>x\<close> is a whole number of hundredths, at most half a
  hundredth from \<open>v\<close>, and the one away from zero when \<open>v\<close> lies halfway between two.
\<close>

definition rounded_2 :: "real \<Rightarrow> real \<Rightarrow> bool" where
  "rounded_2 x v =
     ((\<exists>k::int. x = of_int k / 100) \<and> \<bar>x - v\<bar> \<le> 1 / 200
      \<and> (\<bar>x - v\<bar> = 1 / 200 \<longrightarrow> \<bar>v\<bar> < \<bar>x\<bar>))"

text \<open>
  The articles of one day that a trend query counts: those of the company (and of the
  stakeholder, when one is given) that carry a label.
\<close>

definition day_articles :: "news_article list \<Rightarrow> int \<Rightarrow> string option \<Rightarrow> date \<Rightarrow> news_article list" where
  "day_articles nas c p d =
     filter (\<lambda>na. company_id na = c
                 \<and> (p = None \<or> stakeholder_type na = p)
                 \<and> sentiment_score na \<noteq> None
                 \<and> DATE (published_date na) = d) nas"

text \<open>
  A history of writes on \<^verbatim>\<open>news_articles\<close>, run from the empty database: each write is an
  INSERT of a row or an UPDATE of the row of one id, with the columns of its SET list.
\<close>

datatype article_write = Insert news_article | Update "column list" news_article

fun apply_write :: "article_write \<Rightarrow> database \<Rightarrow> database" where
  "apply_write (Insert NEW) db = insert_news_article NEW db"
| "apply_write (Update cols NEW) db = update_news_article cols NEW db"

definition run_writes :: "article_write list \<Rightarrow> database" where
  "run_writes ws = fold apply_write ws empty_database"

text \<open>
  An article is classified when it has a label and a stakeholder, so that it belongs to a
  bucket. An update keeps the key when the row it replaces, if classified, stays classified
  with the same company, stakeholder and day, and when an update whose SET list names
  neither \<^verbatim>\<open>sentiment_score\<close> nor \<^verbatim>\<open>stakeholder_type\<close> leaves these two columns as they
  were. A history is key-stable when each of its updates keeps the key in the database it
  is run on.
\<close>

definition classified :: "news_article \<Rightarrow> bool" where
  "classified na = (sentiment_score na \<noteq> None \<and> stakeholder_type na \<noteq> None)"



text \<open>
  The condition that every bucket of the store is the bucket of its key, computed from the
  articles, with one bucket for each key that some labelled article has; and the condition
  that a key has the same bucket over two lists of articles.
\<close>

definition same_bucket :: "news_article list \<Rightarrow> news_article list \<Rightarrow> int \<Rightarrow> string \<Rightarrow> date \<Rightarrow> bool" where
  "same_bucket nas nas' c s d =
     (bucket_of nas' c s d = bucket_of nas c s d
      \<and> (bucket_articles nas' c s d = [] \<longleftrightarrow> bucket_articles nas c s d = []))"




definition unclassified_labelled :: "news_article list \<Rightarrow> int \<Rightarrow> date \<Rightarrow> news_article list" where
  "unclassified_labelled nas c d =
     filter (\<lambda>na. company_id na = c \<and> DATE (published_date na) = d
                 \<and> sentiment_score na \<noteq> None \<and> stakeholder_type na = None) nas"

text \<open>
  The mentions of a keyword in a range: its occurrences in the keyword lists of the
  labelled articles of the company published in the range. Each mention carries the
  mapped sentiment of its article.
\<close>

definition keyword_mentions :: "news_article list \<Rightarrow> int \<Rightarrow> date \<Rightarrow> date \<Rightarrow> string \<Rightarrow> nat" where
  "keyword_mentions nas c d1 d2 k =
     length (filter (\<lambda>k'. k' = k)
       (concat (map (\<lambda>na. case keywords_json na of None \<Rightarrow> [] | Some ks \<Rightarrow> ks)
         (filter (\<lambda>na. company_id na = c \<and> d1 \<le> DATE (published_date na)
                      \<and> DATE (published_date na) \<le> d2 \<and> sentiment_score na \<noteq> None) nas))))"

definition keyword_sentiments :: "news_article list \<Rightarrow> int \<Rightarrow> date \<Rightarrow> date \<Rightarrow> string \<Rightarrow> int list" where
  "keyword_sentiments nas c d1 d2 k =
     concat (map (\<lambda>na. map (\<lambda>k'. sentiment_to_numeric (sentiment_score na))
                          (filter (\<lambda>k'. k' = k)
                             (case keywords_json na of None \<Rightarrow> [] | Some ks \<Rightarrow> ks)))
       (filter (\<lambda>na. company_id na = c \<and> d1 \<le> DATE (published_date na)
                    \<and> DATE (published_date na) \<le> d2 \<and> sentiment_score na \<noteq> None) nas))"

subsection \<open>create_monthly_partition\<close>

text \<open>
  Dates of the calendar, as the bounds of a partition need them, ordered by year, month
  and day; and \<^verbatim>\<open>date + INTERVAL '1 month'\<close>, which moves to the next month and keeps the
  day, or the last day of that month when the month is shorter.
\<close>

record calendar_date =
  cd_year :: int
  cd_month :: int
  cd_day :: int

definition date_key :: "calendar_date \<Rightarrow> int \<times> int \<times> int" where
  "date_key d = (cd_year d, cd_month d, cd_day d)"

definition leap_year :: "int \<Rightarrow> bool" where
  "leap_year y = (y mod 4 = 0 \<and> (y mod 100 \<noteq> 0 \<or> y mod 400 = 0))"

definition days_in_month :: "int \<Rightarrow> int \<Rightarrow> int" where
  "days_in_month y m =
     (if m = 2 then (if leap_year y then 29 else 28)
      else if m = 4 \<or> m = 6 \<or> m = 9 \<or> m = 11 then 30 else 31)"

definition plus_one_month :: "calendar_date \<Rightarrow> calendar_date" where
  "plus_one_month d =
     (let y = (if cd_month d = 12 then cd_year d + 1 else cd_year d);
          m = (if cd_month d = 12 then 1 else cd_month d + 1)
      in \<lparr>cd_year = y, cd_month = m, cd_day = min (cd_day d) (days_in_month y m)\<rparr>)"

text \<open>
  The text of an integer, as the concatenation \<^verbatim>\<open>||\<close> and the cast \<^verbatim>\<open>::TEXT\<close> give it, and
  \<^verbatim>\<open>LPAD\<close> with a fill of one character, which cuts a longer text to the length asked.
\<close>

definition digit_char :: "nat \<Rightarrow> char" where
  "digit_char n = ''0123456789'' ! n"

function text_of_nat :: "nat \<Rightarrow> string" where
  "text_of_nat n = (if n < 10 then [digit_char n] else text_of_nat (n div 10) @ [digit_char (n mod 10)])"
  by pat_completeness auto
termination by (relation "measure id") auto

declare text_of_nat.simps [simp del]

definition text_of_int :: "int \<Rightarrow> string" where
  "text_of_int i = (if i < 0 then CHR ''-'' # text_of_nat (nat (- i)) else text_of_nat (nat i))"

definition LPAD :: "string \<Rightarrow> nat \<Rightarrow> char \<Rightarrow> string" where
  "LPAD s n fill = (if n \<le> length s then take n s else replicate (n - length s) fill @ s)"

text \<open>
  The catalog lists the relations by name. Of a relation the model keeps whether it is a
  table partitioned by range on a date, a partition of such a table with its bounds (from
  inclusive, to exclusive), or another table. A name longer than 63 bytes is cut to 63.
\<close>

datatype relation = Ordinary_table | Range_partitioned_table
  | Partition_of string calendar_date calendar_date

type_synonym catalog = "(string \<times> relation) list"

datatype ddl_error = Invalid_datetime | Zero_length_identifier | Undefined_table
  | Not_partitioned | Partition_would_overlap

definition truncate_identifier :: "string \<Rightarrow> string" where
  "truncate_identifier name = take 63 name"

text \<open>
  \<^verbatim>\<open>CREATE TABLE IF NOT EXISTS name PARTITION OF parent FOR VALUES FROM (lo) TO (hi)\<close>, with
  both names quoted as identifiers by \<^verbatim>\<open>%I\<close>: an empty name is refused; when a relation of
  the name exists, of whatever kind, the statement does nothing and succeeds; otherwise the
  parent must exist and be partitioned, and no partition of the parent may overlap the new
  bounds.
\<close>

definition overlaps :: "string \<Rightarrow> calendar_date \<Rightarrow> calendar_date \<Rightarrow> string \<times> relation \<Rightarrow> bool" where
  "overlaps parent lo hi entry =
     (case snd entry of
        Partition_of p lo' hi' \<Rightarrow> p = parent \<and> date_key lo < date_key hi' \<and> date_key lo' < date_key hi
      | _ \<Rightarrow> False)"

definition create_table_if_not_exists_partition_of ::
    "string \<Rightarrow> string \<Rightarrow> calendar_date \<Rightarrow> calendar_date \<Rightarrow> catalog \<Rightarrow> ddl_error + catalog" where
  "create_table_if_not_exists_partition_of name parent lo hi cat =
     (if parent = [] then Inl Zero_length_identifier
      else if truncate_identifier name \<in> fst ` set cat then Inr cat
      else (case map_of cat (truncate_identifier parent) of
              None \<Rightarrow> Inl Undefined_table
            | Some Range_partitioned_table \<Rightarrow>
                if list_ex (overlaps (truncate_identifier parent) lo hi) cat
                then Inl Partition_would_overlap
                else Inr (cat @ [(truncate_identifier name,
                                  Partition_of (truncate_identifier parent) lo hi)])
            | Some _ \<Rightarrow> Inl Not_partitioned))"

text \<open>
  The function itself. From text to date the source casts with \<^verbatim>\<open>DATE(...)\<close>, the date input
  of the database, which is a parameter here: it returns the date read, or nothing when it
  refuses the text. The notice the function raises at its end does not change the catalog.
\<close>

definition partition_name_of :: "string \<Rightarrow> int \<Rightarrow> int \<Rightarrow> string" where
  "partition_name_of table_name year month =
     table_name @ ''_y'' @ text_of_int year @ ''m'' @ LPAD (text_of_int month) 2 (CHR ''0'')"

definition start_date_text :: "int \<Rightarrow> int \<Rightarrow> string" where
  "start_date_text year month = text_of_int year @ ''-'' @ text_of_int month @ ''-01''"

definition create_monthly_partition ::
    "(string \<Rightarrow> calendar_date option) \<Rightarrow> string \<Rightarrow> int \<Rightarrow> int \<Rightarrow> catalog \<Rightarrow> ddl_error + catalog" where
  "create_monthly_partition date_in table_name year month cat =
     (let partition_name = partition_name_of table_name year month in
      case date_in (start_date_text year month) of
        None \<Rightarrow> Inl Invalid_datetime
      | Some start_date \<Rightarrow>
          let end_date = plus_one_month start_date in
          create_table_if_not_exists_partition_of partition_name table_name start_date end_date cat)"

text \<open>
  What the specification says of a partition: the first day of a month, the first day of
  the month after it, and the partitions a table has in a catalog.
\<close>

definition first_of_month :: "int \<Rightarrow> int \<Rightarrow> calendar_date" where
  "first_of_month y m = \<lparr>cd_year = y, cd_month = m, cd_day = 1\<rparr>"

definition first_of_next_month :: "int \<Rightarrow> int \<Rightarrow> calendar_date" where
  "first_of_next_month y m = (if m = 12 then first_of_month (y + 1) 1 else first_of_month y (m + 1))"

definition partitions_of :: "catalog \<Rightarrow> string \<Rightarrow> (string \<times> relation) list" where
  "partitions_of cat parent =
     filter (\<lambda>entry. case snd entry of Partition_of p lo hi \<Rightarrow> p = parent | _ \<Rightarrow> False) cat"

subsection \<open>company_sentiment_summary\<close>

text \<open>
  The view joins each company to its articles with a LEFT JOIN, so that a company without
  articles gives one row whose article columns are all NULL; keeps the rows of the companies
  with \<^verbatim>\<open>is_active = true\<close>; groups them by the company's id, name and stock code; and
  aggregates each group. \<^verbatim>\<open>COUNT(na.id)\<close> counts the rows that have an article, a FILTER on
  \<^verbatim>\<open>published_date\<close> is false on the row without one, and \<^verbatim>\<open>sentiment_to_numeric\<close> is applied
  to the label of every row of the group, the NULL label of the row without an article
  included. The day of the query is a parameter. The view has no ORDER BY: the order of its
  rows is the executor's, given as a parameter that ranks the rows.
\<close>

record company_summary =
  cs_company_id :: int
  cs_company_name :: string
  cs_stock_code :: "string option"
  cs_total_articles :: nat
  cs_articles_last_7days :: nat
  cs_articles_last_30days :: nat
  cs_avg_sentiment_all_time :: "real option"
  cs_avg_sentiment_7days :: "real option"
  cs_avg_sentiment_30days :: "real option"
  cs_latest_article_date :: "timestamp option"

definition MAX_agg :: "int list \<Rightarrow> int option" where
  "MAX_agg vs = (case vs of [] \<Rightarrow> None | v # vs' \<Rightarrow> Some (fold max vs' v))"

definition active :: "company \<Rightarrow> bool" where
  "active c = (is_active c = Some True)"

definition left_join_articles :: "company \<Rightarrow> news_article list \<Rightarrow> (company \<times> news_article option) list" where
  "left_join_articles c nas =
     (if filter (\<lambda>na. c_id c = company_id na) nas = [] then [(c, None)]
      else map (\<lambda>na. (c, Some na)) (filter (\<lambda>na. c_id c = company_id na) nas))"

definition summary_from :: "company list \<Rightarrow> news_article list \<Rightarrow> (company \<times> news_article option) list" where
  "summary_from companies nas =
     filter (\<lambda>(c, na). active c) (concat (map (\<lambda>c. left_join_articles c nas) companies))"

definition na_sentiment :: "company \<times> news_article option \<Rightarrow> int" where
  "na_sentiment row = sentiment_to_numeric (Option.bind (snd row) sentiment_score)"

definition published_since :: "timestamp \<Rightarrow> company \<times> news_article option \<Rightarrow> bool" where
  "published_since ts row = (case snd row of None \<Rightarrow> False | Some na \<Rightarrow> published_date na \<ge> ts)"

definition summary_row_of ::
    "date \<Rightarrow> int \<times> string \<times> string option \<Rightarrow> (company \<times> news_article option) list \<Rightarrow> company_summary" where
  "summary_row_of CURRENT_DATE k g =
     \<lparr>cs_company_id = fst k,
      cs_company_name = fst (snd k),
      cs_stock_code = snd (snd k),
      cs_total_articles = length (filter (\<lambda>row. snd row \<noteq> None) g),
      cs_articles_last_7days = length (filter (published_since (minus_days CURRENT_DATE 7)) g),
      cs_articles_last_30days = length (filter (published_since (minus_days CURRENT_DATE 30)) g),
      cs_avg_sentiment_all_time = map_option (\<lambda>v. ROUND v 2) (AVG (map na_sentiment g)),
      cs_avg_sentiment_7days =
        map_option (\<lambda>v. ROUND v 2)
          (AVG (map na_sentiment (filter (published_since (minus_days CURRENT_DATE 7)) g))),
      cs_avg_sentiment_30days =
        map_option (\<lambda>v. ROUND v 2)
          (AVG (map na_sentiment (filter (published_since (minus_days CURRENT_DATE 30)) g))),
      cs_latest_article_date =
        MAX_agg (concat (map (\<lambda>row. case snd row of None \<Rightarrow> [] | Some na \<Rightarrow> [published_date na]) g))\<rparr>"

definition company_sentiment_summary ::
    "(company_summary \<Rightarrow> nat) \<Rightarrow> date \<Rightarrow> company list \<Rightarrow> news_article list \<Rightarrow> company_summary list" where
  "company_sentiment_summary row_order CURRENT_DATE companies nas =
     sort_key row_order
       (map (\<lambda>(k, g). summary_row_of CURRENT_DATE k g)
         (GROUP_BY (\<lambda>(c, na). (c_id c, c_name c, stock_code c)) (summary_from companies nas)))"

text \<open>
  What the specification says of a summary row: the articles of a company, whether they
  have a label or not; those published since midnight \<open>n\<close> days before today; the mean of
  the mapped labels of a list of articles; and the sum of the mapped labels of its labelled
  articles alone.
\<close>

definition company_articles :: "news_article list \<Rightarrow> int \<Rightarrow> news_article list" where
  "company_articles nas cid = filter (\<lambda>na. company_id na = cid) nas"

definition recent_articles :: "news_article list \<Rightarrow> int \<Rightarrow> date \<Rightarrow> int \<Rightarrow> news_article list" where
  "recent_articles nas cid today n =
     filter (\<lambda>na. published_date na \<ge> minus_days today n) (company_articles nas cid)"

definition mean_sentiment :: "news_article list \<Rightarrow> real" where
  "mean_sentiment as =
     of_int (\<Sum>na\<leftarrow>as. sentiment_to_numeric (sentiment_score na)) / of_nat (length as)"

definition labelled_sum :: "news_article list \<Rightarrow> int" where
  "labelled_sum as =
     (\<Sum>na\<leftarrow>filter (\<lambda>na. sentiment_score na \<noteq> None) as. sentiment_to_numeric (sentiment_score na))"

subsection \<open>Sample rows\<close>

text \<open>Two articles of company 1 on 2024-01-01 (day 19723), classified for customers.\<close>

definition article_A :: news_article where
  "article_A = \<lparr>article_id = 1, company_id = 1, published_date = 1704067200000000,
     sentiment_score = Some ''positive'', stakeholder_type = Some ''customer'', keywords_json = None\<rparr>"

definition article_B :: news_article where
  "article_B = \<lparr>article_id = 2, company_id = 1, published_date = 1704103200000000,
     sentiment_score = Some ''very_negative'', stakeholder_type = Some ''customer'', keywords_json = None\<rparr>"

text \<open>An article with a label and no stakeholder yet.\<close>

definition article_C :: news_article where
  "article_C = \<lparr>article_id = 3, company_id = 1, published_date = 1704067200000000,
     sentiment_score = Some ''negative'', stakeholder_type = None, keywords_json = None\<rparr>"

text \<open>A third customer article of the same day.\<close>

definition article_D :: news_article where
  "article_D = \<lparr>article_id = 4, company_id = 1, published_date = 1704070800000000,
     sentiment_score = Some ''negative'', stakeholder_type = Some ''customer'', keywords_json = None\<rparr>"

text \<open>Three articles of company 1 with keywords, on three consecutive days.\<close>

definition article_K1 :: news_article where
  "article_K1 = \<lparr>article_id = 11, company_id = 1, published_date = 1704067200000000,
     sentiment_score = Some ''positive'', stakeholder_type = Some ''customer'',
     keywords_json = Some [''earnings'', ''recall'']\<rparr>"

definition article_K2 :: news_article where
  "article_K2 = \<lparr>article_id = 12, company_id = 1, published_date = 1704153600000000,
     sentiment_score = Some ''negative'', stakeholder_type = Some ''investor'',
     keywords_json = Some [''recall'', ''earnings'', ''strike'']\<rparr>"

definition article_K3 :: news_article where
  "article_K3 = \<lparr>article_id = 13, company_id = 1, published_date = 1704240000000000,
     sentiment_score = Some ''very_negative'', stakeholder_type = None,
     keywords_json = Some [''recall'']\<rparr>"

definition article_K4 :: news_article where
  "article_K4 = \<lparr>article_id = 14, company_id = 1, published_date = 1704326400000000,
     sentiment_score = Some ''very_positive'', stakeholder_type = Some ''employee'',
     keywords_json = Some [''strike'', ''bonus'']\<rparr>"

text \<open>Two articles with the same label and the same two keywords.\<close>

definition article_T1 :: news_article where
  "article_T1 = \<lparr>article_id = 31, company_id = 1, published_date = 1704067200000000,
     sentiment_score = Some ''positive'', stakeholder_type = Some ''media'',
     keywords_json = Some [''zeta'', ''alpha'']\<rparr>"

definition article_T2 :: news_article where
  "article_T2 = \<lparr>article_id = 32, company_id = 1, published_date = 1704067200000000,
     sentiment_score = Some ''positive'', stakeholder_type = Some ''media'',
     keywords_json = Some [''zeta'', ''alpha'']\<rparr>"


text \<open>
  Variants of the first article, as an update writes them, and the write histories of the
  examples.
\<close>

definition article_A_investor :: news_article where
  "article_A_investor = article_A\<lparr>stakeholder_type := Some ''investor''\<rparr>"

definition article_A_negative :: news_article where
  "article_A_negative = article_A\<lparr>sentiment_score := Some ''negative''\<rparr>"

definition article_A_unlabelled :: news_article where
  "article_A_unlabelled = article_A\<lparr>sentiment_score := None\<rparr>"

definition writes_relabel :: "article_write list" where
  "writes_relabel = [Insert article_A, Insert article_B, Update [Col_sentiment_score] article_A_negative]"

definition writes_move :: "article_write list" where
  "writes_move = [Insert article_A, Insert article_B, Update [Col_stakeholder_type] article_A_investor]"

definition writes_unclassify :: "article_write list" where
  "writes_unclassify = [Insert article_A, Update [Col_sentiment_score] article_A_unlabelled]"

definition article_A_next_day :: news_article where
  "article_A_next_day = article_A\<lparr>published_date := 1704153600000000\<rparr>"

definition writes_rounding :: "article_write list" where
  "writes_rounding = [Insert article_A, Insert article_B, Insert article_D]"

definition writes_pending :: "article_write list" where
  "writes_pending = [Insert article_A, Insert article_C]"

definition writes_redate :: "article_write list" where
  "writes_redate = [Insert article_A, Update [Col_published_date] article_A_next_day]"

text \<open>Two choices of the executor: no preference among tied rows, and keywords by name.\<close>

definition as_grouped :: "keyword_stat \<Rightarrow> nat" where
  "as_grouped r = 0"

definition alpha_first :: "keyword_stat \<Rightarrow> nat" where
  "alpha_first r = (if kw_keyword r = ''alpha'' then 0 else 1)"

definition zeta_first :: "keyword_stat \<Rightarrow> nat" where
  "zeta_first r = (if kw_keyword r = ''zeta'' then 0 else 1)"

text \<open>
  Two active companies, one of them without articles, and a company that is not active; an
  article without label; and two orders the executor may give to the rows of the view.
\<close>

definition company_X :: company where
  "company_X = \<lparr>c_id = 1, c_name = ''Acme'', stock_code = Some ''000001'', is_active = Some True\<rparr>"

definition company_Y :: company where
  "company_Y = \<lparr>c_id = 2, c_name = ''Borealis'', stock_code = None, is_active = Some True\<rparr>"

definition company_Z :: company where
  "company_Z = \<lparr>c_id = 3, c_name = ''Closed'', stock_code = None, is_active = Some False\<rparr>"

definition article_U :: news_article where
  "article_U = \<lparr>article_id = 21, company_id = 1, published_date = 1704067200000000,
     sentiment_score = None, stakeholder_type = None, keywords_json = None\<rparr>"

definition as_listed :: "company_summary \<Rightarrow> nat" where
  "as_listed r = 0"

definition by_id_desc :: "company_summary \<Rightarrow> nat" where
  "by_id_desc r = nat (100 - cs_company_id r)"

text \<open>
  The date input on the texts of the examples, which reads \<^verbatim>\<open>2024-1-01\<close> and \<^verbatim>\<open>2024-12-01\<close>
  and refuses \<^verbatim>\<open>2024-13-01\<close>; a catalog with the partitioned table alone, one where another
  table has the name of the partition of January 2024, and one with that partition.
\<close>

definition date_in_sample :: "string \<Rightarrow> calendar_date option" where
  "date_in_sample s =
     (if s = ''2024-1-01'' then Some (first_of_month 2024 1)
      else if s = ''2024-12-01'' then Some (first_of_month 2024 12)
      else None)"

definition catalog_parent :: catalog where
  "catalog_parent = [(''news_articles'', Range_partitioned_table)]"

definition catalog_clash :: catalog where
  "catalog_clash = [(''news_articles'', Range_partitioned_table),
                    (''news_articles_y2024m01'', Ordinary_table)]"

definition catalog_january :: catalog where
  "catalog_january = [(''news_articles'', Range_partitioned_table),
     (''news_articles_y2024m01'',
        Partition_of ''news_articles'' \<lparr>cd_year = 2024, cd_month = 1, cd_day = 1\<rparr>
          \<lparr>cd_year = 2024, cd_month = 2, cd_day = 1\<rparr>)]"


section \<open>Properties\<close>

subsection \<open>The label mapper\<close>

lemma sentiment_to_numeric_range: "range sentiment_to_numeric = {- 2, - 1, 0, 1, 2}"
proof
  show "range sentiment_to_numeric \<subseteq> {- 2, - 1, 0, 1, 2}"
    by (auto simp: sentiment_to_numeric_def)
next
  have "sentiment_to_numeric (Some ''very_negative'') = - 2"
    "sentiment_to_numeric (Some ''negative'') = - 1"
    "sentiment_to_numeric (Some ''neutral'') = 0"
    "sentiment_to_numeric (Some ''positive'') = 1"
    "sentiment_to_numeric (Some ''very_positive'') = 2"
    by (simp_all add: sentiment_to_numeric_def)
  then show "{- 2, - 1, 0, 1, 2} \<subseteq> range sentiment_to_numeric"
    by (metis empty_subsetI insert_subset rangeI)
qed

text \<open>
  Claim C5. The label mapper is a total function of its text argument: it gives -2, -1, 0,
  1, 2 on the five labels in their order and 0 on every other argument, NULL included, and
  the values it takes are exactly -2, -1, 0, 1, 2.
\<close>

theorem C5_sentiment_to_numeric_total:
  "sentiment_to_numeric (Some ''very_negative'') = - 2
   \<and> sentiment_to_numeric (Some ''negative'') = - 1
   \<and> sentiment_to_numeric (Some ''neutral'') = 0
   \<and> sentiment_to_numeric (Some ''positive'') = 1
   \<and> sentiment_to_numeric (Some ''very_positive'') = 2
   \<and> (\<forall>t. t \<notin> {Some ''very_negative'', Some ''negative'', Some ''neutral'',
                 Some ''positive'', Some ''very_positive''} \<longrightarrow> sentiment_to_numeric t = 0)
   \<and> range sentiment_to_numeric = {- 2, - 1, 0, 1, 2}"
  using sentiment_to_numeric_range by (simp add: sentiment_to_numeric_def)

theorem C5_witness:
  "sentiment_to_numeric (Some ''mixed'') = 0 \<and> sentiment_to_numeric None = 0
   \<and> sentiment_to_numeric (Some ''POSITIVE'') = 0"
  using C5_sentiment_to_numeric_total by simp

subsection \<open>The trigger\<close>

lemma sign_partition:
  "length (filter (\<lambda>x. f x > (0::int)) g) + length (filter (\<lambda>x. f x < 0) g)
     + length (filter (\<lambda>x. f x = 0) g) = length g"
  by (induction g) auto

lemma trend_row_of_partition: "counts_partition (trend_row_of NEW g)"
  by (simp add: counts_partition_def trend_row_of_def sign_partition)

lemma trend_select_partition: "t \<in> set (trend_select nas NEW) \<Longrightarrow> counts_partition t"
  by (auto simp: trend_select_def trend_row_of_partition)

lemma insert_on_conflict_update_partition:
  "counts_partition e \<Longrightarrow> \<forall>t\<in>set ts. counts_partition t
   \<Longrightarrow> \<forall>t\<in>set (insert_on_conflict_update e ts). counts_partition t"
  by (induction ts) (auto simp: counts_partition_def)

lemma fold_insert_partition:
  "\<forall>e\<in>set es. counts_partition e \<Longrightarrow> \<forall>t\<in>set ts. counts_partition t
   \<Longrightarrow> \<forall>t\<in>set (fold insert_on_conflict_update es ts). counts_partition t"
proof (induction es arbitrary: ts)
  case Nil
  then show ?case by simp
next
  case (Cons e es)
  from Cons.prems(1) have e: "counts_partition e" and es: "\<forall>e\<in>set es. counts_partition e"
    by simp_all
  from Cons.IH[OF es insert_on_conflict_update_partition[OF e Cons.prems(2)]]
  show ?case by simp
qed

lemma fold_const: "fold (\<lambda>x. id) xs s = s"
  by (induction xs) auto

lemma trigger_noop:
  "sentiment_score NEW = None \<or> stakeholder_type NEW = None
   \<Longrightarrow> trigger_update_sentiment_trends ev NEW = id"
  by (auto simp: trigger_update_sentiment_trends_def fun_eq_iff)

lemma distinct_set_singleton:
  assumes "distinct xs" "set xs = {k}"
  shows "xs = [k]"
proof (cases xs)
  case Nil
  then show ?thesis using assms(2) by simp
next
  case (Cons a as)
  then have a: "a = k" using assms(2) by auto
  have "set as \<subseteq> {k}" using assms(2) Cons by auto
  moreover have "k \<notin> set as" using assms(1) Cons a by simp
  ultimately have "as = []" by (cases as) auto
  then show ?thesis using Cons a by simp
qed

lemma GROUP_BY_const:
  assumes "\<forall>r\<in>set rows. f r = k" "rows \<noteq> []"
  shows "GROUP_BY f rows = [(k, rows)]"
proof -
  have "set (map f rows) = {k}" using assms by (cases rows) auto
  then have "set (remdups (map f rows)) = {k}" by simp
  then have "remdups (map f rows) = [k]"
    by (intro distinct_set_singleton) simp_all
  moreover have "filter (\<lambda>r. f r = k) rows = rows" using assms by simp
  ultimately show ?thesis by (simp add: GROUP_BY_def)
qed

lemma trend_select_eq:
  "trend_select nas NEW =
    (if filter (trend_key_where NEW) nas = [] then []
     else [trend_row_of NEW (filter (trend_key_where NEW) nas)])"
proof (cases "filter (trend_key_where NEW) nas = []")
  case True
  then show ?thesis by (simp add: trend_select_def GROUP_BY_def)
next
  case False
  have "\<forall>r\<in>set (filter (trend_key_where NEW) nas).
          (company_id r, stakeholder_type r, DATE (published_date r))
          = (company_id NEW, stakeholder_type NEW, DATE (published_date NEW))"
    by (simp add: trend_key_where_def)
  from GROUP_BY_const[OF this False] False show ?thesis
    by (simp add: trend_select_def)
qed

lemma insert_on_conflict_update_key:
  assumes "st_stakeholder_type e \<noteq> None" "distinct (map trend_key ts)"
  shows "filter (\<lambda>t. trend_key t = trend_key e) (insert_on_conflict_update e ts) = [e]"
  using assms
proof (induction ts)
  case Nil
  then show ?case by simp
next
  case (Cons t ts)
  show ?case
  proof (cases "conflicts e t")
    case True
    then have k: "trend_key t = trend_key e" by (auto simp: conflicts_def trend_key_def)
    have "trend_key t \<notin> trend_key ` set ts" using Cons.prems(2) by simp
    with k have "\<forall>u\<in>set ts. trend_key u \<noteq> trend_key e" by (metis imageI)
    then have "filter (\<lambda>t. trend_key t = trend_key e) ts = []" by (simp add: filter_empty_conv)
    moreover have "t\<lparr>total_articles := total_articles e, positive_count := positive_count e,
             negative_count := negative_count e, neutral_count := neutral_count e,
             avg_sentiment_score := avg_sentiment_score e\<rparr> = e"
      using k by (simp add: trend_key_def)
    ultimately show ?thesis using True by simp
  next
    case False
    then have "trend_key t \<noteq> trend_key e" using Cons.prems(1)
      by (auto simp: conflicts_def trend_key_def)
    then show ?thesis using False Cons by simp
  qed
qed

lemma trend_key_where_bucket:
  "stakeholder_type NEW = Some s \<Longrightarrow>
   filter (trend_key_where NEW) nas
     = bucket_articles nas (company_id NEW) s (DATE (published_date NEW))"
  by (auto simp: trend_key_where_def bucket_articles_def intro!: filter_cong)

lemma trend_select_bucket:
  assumes "stakeholder_type NEW = Some s" "sentiment_score NEW \<noteq> None" "NEW \<in> set nas"
  shows "trend_select nas NEW = [bucket_of nas (company_id NEW) s (DATE (published_date NEW))]"
proof -
  have "NEW \<in> set (filter (trend_key_where NEW) nas)"
    using assms by (simp add: trend_key_where_def)
  then have ne: "filter (trend_key_where NEW) nas \<noteq> []" by (metis empty_iff empty_set)
  then have ne': "bucket_articles nas (company_id NEW) s (DATE (published_date NEW)) \<noteq> []"
    using trend_key_where_bucket[OF assms(1)] by simp
  show ?thesis
    using ne ne' assms(1)
    by (simp add: trend_select_eq trend_key_where_bucket[OF assms(1)] trend_row_of_def
        bucket_of_def AVG_def Let_def)
qed

lemma insert_on_conflict_update_keys:
  assumes "st_stakeholder_type e \<noteq> None"
  shows "map trend_key (insert_on_conflict_update e ts)
         = (if trend_key e \<in> set (map trend_key ts) then map trend_key ts
            else map trend_key ts @ [trend_key e])"
  using assms
proof (induction ts)
  case Nil
  then show ?case by simp
next
  case (Cons t ts)
  have "conflicts e t \<longleftrightarrow> trend_key t = trend_key e"
    using Cons.prems by (auto simp: conflicts_def trend_key_def)
  then show ?case using Cons by (auto simp: trend_key_def)
qed

lemma insert_on_conflict_update_distinct:
  "st_stakeholder_type e \<noteq> None \<Longrightarrow> distinct (map trend_key ts)
   \<Longrightarrow> distinct (map trend_key (insert_on_conflict_update e ts))"
  by (simp add: insert_on_conflict_update_keys)

lemma trigger_fires:
  assumes "event_matches ev" "sentiment_score NEW \<noteq> None" "stakeholder_type NEW = Some s"
    and "NEW \<in> set (news_articles db)" "distinct (map trend_key (sentiment_trends db))"
  shows "news_articles (trigger_update_sentiment_trends ev NEW db) = news_articles db"
    and "distinct (map trend_key (sentiment_trends (trigger_update_sentiment_trends ev NEW db)))"
    and "filter (\<lambda>t. trend_key t = (company_id NEW, Some s, DATE (published_date NEW)))
           (sentiment_trends (trigger_update_sentiment_trends ev NEW db))
         = [bucket_of (news_articles db) (company_id NEW) s (DATE (published_date NEW))]"
proof -
  let ?e = "bucket_of (news_articles db) (company_id NEW) s (DATE (published_date NEW))"
  have st: "sentiment_trends (trigger_update_sentiment_trends ev NEW db)
            = insert_on_conflict_update ?e (sentiment_trends db)"
    using assms(1-4)
    by (simp add: trigger_update_sentiment_trends_def update_sentiment_trends_def
        trend_select_bucket)
  have e: "st_stakeholder_type ?e \<noteq> None"
    "trend_key ?e = (company_id NEW, Some s, DATE (published_date NEW))"
    by (simp_all add: bucket_of_def trend_key_def Let_def)
  show "news_articles (trigger_update_sentiment_trends ev NEW db) = news_articles db"
    by (simp add: trigger_update_sentiment_trends_def update_sentiment_trends_def)
  show "distinct (map trend_key (sentiment_trends (trigger_update_sentiment_trends ev NEW db)))"
    unfolding st using e(1) assms(5) by (rule insert_on_conflict_update_distinct)
  show "filter (\<lambda>t. trend_key t = (company_id NEW, Some s, DATE (published_date NEW)))
           (sentiment_trends (trigger_update_sentiment_trends ev NEW db)) = [?e]"
    unfolding st using insert_on_conflict_update_key[OF e(1) assms(5)] by (simp only: e(2))
qed

lemma trigger_fires_fold:
  assumes "event_matches ev" "sentiment_score NEW \<noteq> None" "stakeholder_type NEW = Some s"
    and "NEW \<in> set (news_articles db)" "distinct (map trend_key (sentiment_trends db))"
    and "rows \<noteq> []"
  shows "filter (\<lambda>t. trend_key t = (company_id NEW, Some s, DATE (published_date NEW)))
           (sentiment_trends (fold (\<lambda>na. trigger_update_sentiment_trends ev NEW) rows db))
         = [bucket_of (news_articles db) (company_id NEW) s (DATE (published_date NEW))]
       \<and> news_articles (fold (\<lambda>na. trigger_update_sentiment_trends ev NEW) rows db) = news_articles db"
  using assms(4-6)
proof (induction rows arbitrary: db)
  case Nil
  then show ?case by simp
next
  case (Cons r rows)
  let ?db = "trigger_update_sentiment_trends ev NEW db"
  note f = trigger_fires[OF assms(1-3) Cons.prems(1,2)]
  show ?case
  proof (cases "rows = []")
    case True
    then show ?thesis using f by simp
  next
    case False
    have "NEW \<in> set (news_articles ?db)" using f(1) Cons.prems(1) by simp
    from Cons.IH[OF this f(2) False] show ?thesis using f(1) by simp
  qed
qed

lemma news_articles_insert:
  "news_articles (insert_news_article NEW db) = news_articles db @ [NEW]"
  by (simp add: insert_news_article_def trigger_update_sentiment_trends_def update_sentiment_trends_def)

lemma dbA: "insert_news_article article_A empty_database =
  \<lparr>news_articles = [article_A], sentiment_trends = [\<lparr>st_company_id = 1, st_stakeholder_type = Some ''customer'', st_date = 19723,
      total_articles = 1, positive_count = 1, negative_count = 0, neutral_count = 0,
      avg_sentiment_score = Some 1\<rparr>]\<rparr>"
  by (simp add: insert_news_article_def empty_database_def trigger_update_sentiment_trends_def
     update_sentiment_trends_def trend_select_def GROUP_BY_def trend_key_where_def article_A_def
     trend_row_of_def DATE_def usecs_per_day_def sentiment_to_numeric_def AVG_def)


lemma trigger_partition:
  assumes "\<forall>t\<in>set (sentiment_trends db). counts_partition t"
  shows "\<forall>t\<in>set (sentiment_trends (trigger_update_sentiment_trends ev NEW db)). counts_partition t"
proof -
  have "\<forall>e\<in>set (trend_select (news_articles db) NEW). counts_partition e"
    by (rule ballI) (rule trend_select_partition)
  from fold_insert_partition[OF this assms] show ?thesis
    using assms by (simp add: trigger_update_sentiment_trends_def update_sentiment_trends_def)
qed

lemma trigger_partition_fold:
  "\<forall>t\<in>set (sentiment_trends db). counts_partition t \<Longrightarrow>
   \<forall>t\<in>set (sentiment_trends (fold (\<lambda>na. trigger_update_sentiment_trends ev NEW) rows db)).
      counts_partition t"
proof (induction rows arbitrary: db)
  case Nil
  then show ?case by simp
next
  case (Cons r rows)
  from Cons.IH[OF trigger_partition[OF Cons.prems]] show ?case by simp
qed

text \<open>
  Claim C1. Every row that the SELECT of update_sentiment_trends produces has
  positive_count + negative_count + neutral_count = total_articles; so a store whose rows
  have the property keeps it through the trigger function and through every insert and
  update of an article.
\<close>

theorem C1_counts_partition_total:
  "(\<forall>t\<in>set (trend_select nas NEW). counts_partition t)
   \<and> ((\<forall>t\<in>set (sentiment_trends db). counts_partition t) \<longrightarrow>
        (\<forall>t\<in>set (sentiment_trends (update_sentiment_trends NEW db)). counts_partition t)
      \<and> (\<forall>t\<in>set (sentiment_trends (insert_news_article NEW db)). counts_partition t)
      \<and> (\<forall>t\<in>set (sentiment_trends (update_news_article cols NEW db)). counts_partition t))"
proof (intro conjI impI)
  show "\<forall>t\<in>set (trend_select nas NEW). counts_partition t"
    by (rule ballI) (rule trend_select_partition)
next
  assume a: "\<forall>t\<in>set (sentiment_trends db). counts_partition t"
  show "\<forall>t\<in>set (sentiment_trends (update_sentiment_trends NEW db)). counts_partition t"
  proof -
    have "\<forall>e\<in>set (trend_select (news_articles db) NEW). counts_partition e"
      by (rule ballI) (rule trend_select_partition)
    from fold_insert_partition[OF this a] show ?thesis
      by (simp add: update_sentiment_trends_def)
  qed
  show "\<forall>t\<in>set (sentiment_trends (insert_news_article NEW db)). counts_partition t"
    unfolding insert_news_article_def using a by (intro trigger_partition) simp
  show "\<forall>t\<in>set (sentiment_trends (update_news_article cols NEW db)). counts_partition t"
    unfolding update_news_article_def Let_def using a by (intro trigger_partition_fold) simp
qed

theorem C1_witness:
  "sentiment_trends (insert_news_article article_A empty_database) \<noteq> []
   \<and> list_all counts_partition (sentiment_trends (insert_news_article article_A empty_database))"
proof -
  have "\<forall>t\<in>set (sentiment_trends empty_database). counts_partition t"
    by (simp add: empty_database_def)
  with C1_counts_partition_total[of "[]" article_A empty_database "[]"]
  have "\<forall>t\<in>set (sentiment_trends (insert_news_article article_A empty_database)). counts_partition t"
    by blast
  moreover have "sentiment_trends (insert_news_article article_A empty_database) \<noteq> []"
    by (simp add: dbA)
  ultimately show ?thesis by (simp add: list_all_iff)
qed

text \<open>
  Claim C2. When the trigger fires for a written article with a label and a stakeholder
  (an insert, or an update of an existing row whose SET list names the label or the
  stakeholder column), the store holds afterwards exactly one row under the key (company,
  stakeholder, publish date), and it is the bucket computed from all the articles of the
  table after the write that share the key and carry a label: their number, the numbers of
  those mapped above, below and to zero, and the arithmetic mean of their mapped values.
  The row does not depend on what the store held before.
\<close>

theorem C2_bucket_recomputed:
  assumes "sentiment_score NEW \<noteq> None" "stakeholder_type NEW = Some s"
    and "distinct (map trend_key (sentiment_trends db))"
  shows "(let db' = insert_news_article NEW db in
          filter (\<lambda>t. trend_key t = (company_id NEW, Some s, DATE (published_date NEW)))
            (sentiment_trends db')
          = [bucket_of (news_articles db') (company_id NEW) s (DATE (published_date NEW))])
       \<and> (Col_sentiment_score \<in> set cols \<or> Col_stakeholder_type \<in> set cols
          \<longrightarrow> article_id NEW \<in> article_id ` set (news_articles db)
          \<longrightarrow> (let db' = update_news_article cols NEW db in
          filter (\<lambda>t. trend_key t = (company_id NEW, Some s, DATE (published_date NEW)))
            (sentiment_trends db')
          = [bucket_of (news_articles db') (company_id NEW) s (DATE (published_date NEW))]))"
proof (intro conjI impI)
  let ?db = "db\<lparr>news_articles := news_articles db @ [NEW]\<rparr>"
  have "NEW \<in> set (news_articles ?db)" "distinct (map trend_key (sentiment_trends ?db))"
    using assms(3) by simp_all
  from trigger_fires[OF _ assms(1,2) this, of INSERT]
  show "let db' = insert_news_article NEW db in
          filter (\<lambda>t. trend_key t = (company_id NEW, Some s, DATE (published_date NEW)))
            (sentiment_trends db')
          = [bucket_of (news_articles db') (company_id NEW) s (DATE (published_date NEW))]"
    by (simp add: insert_news_article_def Let_def)
next
  assume ev: "Col_sentiment_score \<in> set cols \<or> Col_stakeholder_type \<in> set cols"
    and ex: "article_id NEW \<in> article_id ` set (news_articles db)"
  let ?db = "db\<lparr>news_articles :=
                 map (\<lambda>na. if article_id na = article_id NEW then NEW else na) (news_articles db)\<rparr>"
  let ?rows = "filter (\<lambda>na. article_id na = article_id NEW) (news_articles db)"
  have ne: "?rows \<noteq> []" using ex by (auto simp: filter_empty_conv)
  have "NEW \<in> set (news_articles ?db)" using ex by auto
  moreover have "distinct (map trend_key (sentiment_trends ?db))" using assms(3) by simp
  moreover have "event_matches (UPDATE cols)" using ev by simp
  ultimately have "filter (\<lambda>t. trend_key t = (company_id NEW, Some s, DATE (published_date NEW)))
           (sentiment_trends (fold (\<lambda>na. trigger_update_sentiment_trends (UPDATE cols) NEW) ?rows ?db))
         = [bucket_of (news_articles ?db) (company_id NEW) s (DATE (published_date NEW))]
       \<and> news_articles (fold (\<lambda>na. trigger_update_sentiment_trends (UPDATE cols) NEW) ?rows ?db) = news_articles ?db"
    using trigger_fires_fold[OF _ assms(1,2) _ _ ne] by blast
  then show "let db' = update_news_article cols NEW db in
          filter (\<lambda>t. trend_key t = (company_id NEW, Some s, DATE (published_date NEW)))
            (sentiment_trends db')
          = [bucket_of (news_articles db') (company_id NEW) s (DATE (published_date NEW))]"
    by (simp add: update_news_article_def Let_def)
qed


text \<open>Scenario B: one 'positive' and one 'very_negative' article under the same key.\<close>

theorem C2_witness:
  "filter (\<lambda>t. trend_key t = (1, Some ''customer'', 19723))
     (sentiment_trends (insert_news_article article_B (insert_news_article article_A empty_database)))
   = [\<lparr>st_company_id = 1, st_stakeholder_type = Some ''customer'', st_date = 19723,
      total_articles = 2, positive_count = 1, negative_count = 1, neutral_count = 0,
      avg_sentiment_score = Some (- 1 / 2)\<rparr>]"
proof -
  have 1: "sentiment_score article_B \<noteq> None" "stakeholder_type article_B = Some ''customer''"
    by (simp_all add: article_B_def)
  have 2: "distinct (map trend_key (sentiment_trends (insert_news_article article_A empty_database)))"
    by (simp add: dbA)
  have 3: "news_articles (insert_news_article article_B (insert_news_article article_A empty_database))
     = [article_A, article_B]"
    by (simp add: news_articles_insert empty_database_def)
  have 4: "bucket_of [article_A, article_B] 1 ''customer'' 19723 = \<lparr>st_company_id = 1, st_stakeholder_type = Some ''customer'', st_date = 19723,
      total_articles = 2, positive_count = 1, negative_count = 1, neutral_count = 0,
      avg_sentiment_score = Some (- 1 / 2)\<rparr>"
    by (simp add: bucket_of_def bucket_articles_def article_A_def article_B_def DATE_def
        usecs_per_day_def sentiment_to_numeric_def)
  have 5: "company_id article_B = 1" "DATE (published_date article_B) = 19723"
    by (simp_all add: article_B_def DATE_def usecs_per_day_def)
  from C2_bucket_recomputed[OF 1 2, of "[]"] show ?thesis
    by (simp add: Let_def 3 4 5)
qed


text \<open>
  Claim C4. A write (insert or update) that leaves the label or the stakeholder of the
  article NULL changes no row of the aggregate store.
\<close>

theorem C4_pending_leaves_store:
  assumes "sentiment_score NEW = None \<or> stakeholder_type NEW = None"
  shows "sentiment_trends (insert_news_article NEW db) = sentiment_trends db
       \<and> sentiment_trends (update_news_article cols NEW db) = sentiment_trends db"
  using assms
  by (simp add: insert_news_article_def update_news_article_def trigger_noop fold_const Let_def)


theorem C4_witness:
  "sentiment_trends (insert_news_article article_C (insert_news_article article_A empty_database))
     = sentiment_trends (insert_news_article article_A empty_database)
   \<and> sentiment_trends (update_news_article [Col_stakeholder_type]
        (article_A\<lparr>stakeholder_type := None\<rparr>) (insert_news_article article_A empty_database))
     = sentiment_trends (insert_news_article article_A empty_database)"
proof -
  have "sentiment_score article_C = None \<or> stakeholder_type article_C = None"
    by (simp add: article_C_def)
  moreover have "sentiment_score (article_A\<lparr>stakeholder_type := None\<rparr>) = None
      \<or> stakeholder_type (article_A\<lparr>stakeholder_type := None\<rparr>) = None"
    by simp
  ultimately show ?thesis
    using C4_pending_leaves_store[of article_C "insert_news_article article_A empty_database" "[]"]
      C4_pending_leaves_store[of "article_A\<lparr>stakeholder_type := None\<rparr>"
        "insert_news_article article_A empty_database" "[Col_stakeholder_type]"]
    by simp
qed

subsection \<open>The trend query\<close>

lemmas sample_defs = article_A_def article_B_def article_C_def article_D_def

lemma insort_key_map:
  "insort_key f (g x) (map g ys) = map g (insort_key (\<lambda>y. f (g y)) x ys)"
  by (induction ys) simp_all

lemma sort_key_map: "sort_key f (map g xs) = map g (sort_key (\<lambda>y. f (g y)) xs)"
  by (induction xs) (simp_all add: insort_key_map)

lemma sort_key_GROUP_BY:
  "sort_key fst (GROUP_BY f rows)
   = map (\<lambda>k. (k, filter (\<lambda>r. f r = k) rows)) (sort (remdups (map f rows)))"
  by (simp add: GROUP_BY_def sort_key_map)

lemma calculate_sentiment_trend_eq:
  "calculate_sentiment_trend nas c p d1 d2 =
     map (\<lambda>d. trend_point_of d (filter (\<lambda>na. DATE (published_date na) = d)
                                  (filter (trend_where c p d1 d2) nas)))
       (sort (remdups (map (\<lambda>na. DATE (published_date na)) (filter (trend_where c p d1 d2) nas))))"
  by (simp add: calculate_sentiment_trend_def sort_key_GROUP_BY)

lemma trend_where_day:
  assumes "d1 \<le> d" "d \<le> d2"
  shows "filter (\<lambda>na. DATE (published_date na) = d) (filter (trend_where c p d1 d2) nas)
         = day_articles nas c p d"
  using assms unfolding day_articles_def filter_filter
  by (intro filter_cong) (auto simp: trend_where_def)

lemma trend_dates:
  "set (map (\<lambda>na. DATE (published_date na)) (filter (trend_where c p d1 d2) nas))
   = {d. d1 \<le> d \<and> d \<le> d2 \<and> day_articles nas c p d \<noteq> []}"
proof (intro set_eqI iffI)
  fix d assume "d \<in> set (map (\<lambda>na. DATE (published_date na)) (filter (trend_where c p d1 d2) nas))"
  then obtain na where "na \<in> set nas" "trend_where c p d1 d2 na" "DATE (published_date na) = d"
    by auto
  then show "d \<in> {d. d1 \<le> d \<and> d \<le> d2 \<and> day_articles nas c p d \<noteq> []}"
    by (auto simp: trend_where_def day_articles_def filter_empty_conv)
next
  fix d assume "d \<in> {d. d1 \<le> d \<and> d \<le> d2 \<and> day_articles nas c p d \<noteq> []}"
  then obtain na where "d1 \<le> d" "d \<le> d2" "na \<in> set nas" "company_id na = c"
    "p = None \<or> stakeholder_type na = p" "sentiment_score na \<noteq> None" "DATE (published_date na) = d"
    by (auto simp: day_articles_def filter_empty_conv)
  then have "na \<in> set (filter (trend_where c p d1 d2) nas)"
    by (simp add: trend_where_def)
  with \<open>DATE (published_date na) = d\<close>
  show "d \<in> set (map (\<lambda>na. DATE (published_date na)) (filter (trend_where c p d1 d2) nas))"
    by (metis (mono_tags, lifting) image_eqI set_map)
qed

lemma tp_date_calculate:
  "map tp_date (calculate_sentiment_trend nas c p d1 d2)
   = sort (remdups (map (\<lambda>na. DATE (published_date na)) (filter (trend_where c p d1 d2) nas)))"
  by (simp add: calculate_sentiment_trend_eq trend_point_of_def comp_def)

lemma calculate_row:
  assumes "r \<in> set (calculate_sentiment_trend nas c p d1 d2)"
  shows "d1 \<le> tp_date r \<and> tp_date r \<le> d2 \<and> day_articles nas c p (tp_date r) \<noteq> []
       \<and> r = trend_point_of (tp_date r) (day_articles nas c p (tp_date r))"
proof -
  let ?F = "filter (trend_where c p d1 d2) nas"
  from assms obtain d where d: "d \<in> set (map (\<lambda>na. DATE (published_date na)) ?F)"
    and r: "r = trend_point_of d (filter (\<lambda>na. DATE (published_date na) = d) ?F)"
    by (auto simp: calculate_sentiment_trend_eq)
  from d have rng: "d1 \<le> d" "d \<le> d2" "day_articles nas c p d \<noteq> []"
    unfolding trend_dates by simp_all
  have "tp_date r = d" using r by (simp add: trend_point_of_def)
  then show ?thesis using r rng trend_where_day[OF rng(1,2)] by simp
qed

lemma floor_half_bounds:
  fixes w :: real
  defines "n \<equiv> \<lfloor>w + 1 / 2\<rfloor>"
  shows "w - 1 / 2 < of_int n" "of_int n \<le> w + 1 / 2"
proof -
  have "of_int n \<le> w + 1 / 2" unfolding n_def by (rule of_int_floor_le)
  moreover have "w + 1 / 2 < of_int n + 1" unfolding n_def by linarith
  ultimately show "w - 1 / 2 < of_int n" "of_int n \<le> w + 1 / 2" by simp_all
qed

lemma ROUND_rounded_2: "rounded_2 (ROUND v 2) v"
proof (cases "0 \<le> v")
  case True
  define n where "n = \<lfloor>v * 100 + 1 / 2\<rfloor>"
  have x: "ROUND v 2 = of_int n / 100" using True by (simp add: ROUND_def n_def)
  have b: "v * 100 - 1 / 2 < of_int n" "of_int n \<le> v * 100 + 1 / 2"
    unfolding n_def by (rule floor_half_bounds)+
  have d: "\<bar>of_int n / 100 - v\<bar> \<le> 1 / 200" using b by linarith
  have t: "\<bar>v\<bar> < \<bar>of_int n / 100\<bar>" if "\<bar>of_int n / 100 - v\<bar> = 1 / 200"
  proof -
    from that b have "of_int n / 100 - v = 1 / 200" by linarith
    then show ?thesis using True by linarith
  qed
  show ?thesis unfolding rounded_2_def x using d t by blast
next
  case False
  define n where "n = \<lfloor>- v * 100 + 1 / 2\<rfloor>"
  have x: "ROUND v 2 = - (of_int n / 100)" using False by (simp add: ROUND_def n_def)
  have b: "- v * 100 - 1 / 2 < of_int n" "of_int n \<le> - v * 100 + 1 / 2"
    unfolding n_def by (rule floor_half_bounds)+
  have k: "- (of_int n / 100) = (of_int (- n) :: real) / 100" by simp
  have d: "\<bar>- (of_int n / 100) - v\<bar> \<le> 1 / 200" using b by linarith
  have t: "\<bar>v\<bar> < \<bar>- (of_int n / 100)\<bar>" if "\<bar>- (of_int n / 100) - v\<bar> = 1 / 200"
  proof -
    from that b have "- (of_int n / 100) - v = - (1 / 200)" by linarith
    then show ?thesis using False by linarith
  qed
  show ?thesis unfolding rounded_2_def x using d t k by blast
qed

lemma rounded_2_unique:
  assumes "rounded_2 x v" "rounded_2 y v"
  shows "x = y"
proof -
  from assms obtain k l :: int where k: "x = of_int k / 100" and l: "y = of_int l / 100"
    unfolding rounded_2_def by blast
  have dx: "\<bar>x - v\<bar> \<le> 1 / 200" and dy: "\<bar>y - v\<bar> \<le> 1 / 200"
    using assms unfolding rounded_2_def by blast+
  have tx: "\<bar>x - v\<bar> = 1 / 200 \<longrightarrow> \<bar>v\<bar> < \<bar>x\<bar>" and ty: "\<bar>y - v\<bar> = 1 / 200 \<longrightarrow> \<bar>v\<bar> < \<bar>y\<bar>"
    using assms unfolding rounded_2_def by blast+
  have "\<bar>x - y\<bar> \<le> 1 / 100" using dx dy by linarith
  then have "\<bar>(of_int (k - l) :: real)\<bar> \<le> 1" unfolding k l by (simp add: field_simps)
  then have "\<bar>k - l\<bar> \<le> 1" by (metis of_int_abs of_int_le_1_iff)
  then consider "k = l" | "k = l + 1" | "l = k + 1" by linarith
  then show ?thesis
  proof cases
    case 1
    then show ?thesis using k l by simp
  next
    case 2
    then have xy: "x = y + 1 / 100" using k l by (simp add: field_simps)
    with dx dy have e: "x - v = 1 / 200" "y - v = - (1 / 200)" by linarith+
    with tx ty have a: "\<bar>v\<bar> < \<bar>x\<bar>" "\<bar>v\<bar> < \<bar>y\<bar>" by simp_all
    have "0 \<le> l \<or> k \<le> 0" using 2 by linarith
    then have "0 \<le> y \<or> x \<le> 0" unfolding k l by auto
    then show ?thesis using e a by linarith
  next
    case 3
    then have xy: "y = x + 1 / 100" using k l by (simp add: field_simps)
    with dx dy have e: "y - v = 1 / 200" "x - v = - (1 / 200)" by linarith+
    with tx ty have a: "\<bar>v\<bar> < \<bar>y\<bar>" "\<bar>v\<bar> < \<bar>x\<bar>" by simp_all
    have "0 \<le> k \<or> l \<le> 0" using 3 by linarith
    then have "0 \<le> x \<or> y \<le> 0" unfolding k l by auto
    then show ?thesis using e a by linarith
  qed
qed

lemma E1: "calculate_sentiment_trend [article_A, article_B, article_D] 1 (Some ''customer'') 19723 19723
  = [\<lparr>tp_date = 19723, tp_avg_sentiment = Some (- 67 / 100), tp_article_count = 3,
      tp_positive_ratio = 3333 / 100\<rparr>]"
  by (simp add: calculate_sentiment_trend_def GROUP_BY_def trend_where_def trend_point_of_def
      AVG_def ROUND_def sentiment_to_numeric_def DATE_def usecs_per_day_def sample_defs)

text \<open>
  Claim C6. For every company, optional stakeholder and inclusive date range, the query
  returns one row for each date of the range on which some labelled article of the company
  (and of the stakeholder, when given) was published, in ascending date order. The row
  carries the number of those articles; their mean mapped value rounded to two decimals (a
  whole number of hundredths within half a hundredth of the mean, away from zero on a
  tie); and the share of them that map above zero, times 100, rounded the same way.
  Articles without a label enter none of the three.
\<close>

theorem C6_trend_query_rows:
  "sorted (map tp_date (calculate_sentiment_trend nas c p d1 d2))
   \<and> distinct (map tp_date (calculate_sentiment_trend nas c p d1 d2))
   \<and> set (map tp_date (calculate_sentiment_trend nas c p d1 d2))
       = {d. d1 \<le> d \<and> d \<le> d2 \<and> day_articles nas c p d \<noteq> []}
   \<and> (\<forall>r\<in>set (calculate_sentiment_trend nas c p d1 d2).
        tp_article_count r = length (day_articles nas c p (tp_date r))
      \<and> (\<exists>a. tp_avg_sentiment r = Some a
             \<and> rounded_2 a (of_int (\<Sum>na\<leftarrow>day_articles nas c p (tp_date r).
                                       sentiment_to_numeric (sentiment_score na))
                             / of_nat (length (day_articles nas c p (tp_date r)))))
      \<and> rounded_2 (tp_positive_ratio r)
           (of_nat (length (filter (\<lambda>na. sentiment_to_numeric (sentiment_score na) > 0)
                                   (day_articles nas c p (tp_date r))))
            / of_nat (length (day_articles nas c p (tp_date r))) * 100))"
proof (intro conjI ballI)
  show "sorted (map tp_date (calculate_sentiment_trend nas c p d1 d2))"
    by (simp add: tp_date_calculate)
  show "distinct (map tp_date (calculate_sentiment_trend nas c p d1 d2))"
    by (simp add: tp_date_calculate)
  show "set (map tp_date (calculate_sentiment_trend nas c p d1 d2))
       = {d. d1 \<le> d \<and> d \<le> d2 \<and> day_articles nas c p d \<noteq> []}"
    unfolding tp_date_calculate using trend_dates[of c p d1 d2 nas] by simp
next
  fix r assume "r \<in> set (calculate_sentiment_trend nas c p d1 d2)"
  from calculate_row[OF this]
  have ne: "day_articles nas c p (tp_date r) \<noteq> []"
    and r: "r = trend_point_of (tp_date r) (day_articles nas c p (tp_date r))" by simp_all
  let ?S = "day_articles nas c p (tp_date r)"
  show "tp_article_count r = length ?S"
    by (subst r) (simp add: trend_point_of_def)
  have "tp_avg_sentiment r =
          Some (ROUND (of_int (\<Sum>na\<leftarrow>?S. sentiment_to_numeric (sentiment_score na))
                       / of_nat (length ?S)) 2)"
    using ne by (subst r) (simp add: trend_point_of_def AVG_def)
  then show "\<exists>a. tp_avg_sentiment r = Some a
             \<and> rounded_2 a (of_int (\<Sum>na\<leftarrow>?S. sentiment_to_numeric (sentiment_score na))
                             / of_nat (length ?S))"
    using ROUND_rounded_2 by blast
  have "tp_positive_ratio r =
          ROUND (of_nat (length (filter (\<lambda>na. sentiment_to_numeric (sentiment_score na) > 0) ?S))
                 / of_nat (length ?S) * 100) 2"
    by (subst r) (simp add: trend_point_of_def)
  then show "rounded_2 (tp_positive_ratio r)
           (of_nat (length (filter (\<lambda>na. sentiment_to_numeric (sentiment_score na) > 0) ?S))
            / of_nat (length ?S) * 100)"
    using ROUND_rounded_2 by simp
qed

lemma day_articles_sample:
  "day_articles [article_A, article_B, article_D] 1 (Some ''customer'') 19723
   = [article_A, article_B, article_D]"
  by (simp add: day_articles_def DATE_def usecs_per_day_def sample_defs)

theorem C6_witness:
  "calculate_sentiment_trend [article_A, article_B, article_D] 1 (Some ''customer'') 19723 19723
   = [\<lparr>tp_date = 19723, tp_avg_sentiment = Some (- 67 / 100), tp_article_count = 3,
       tp_positive_ratio = 3333 / 100\<rparr>]
   \<and> length (day_articles [article_A, article_B, article_D] 1 (Some ''customer'') 19723) = 3
   \<and> rounded_2 (- 67 / 100) (- 2 / 3)
   \<and> rounded_2 (3333 / 100) (100 / 3)"
proof -
  let ?r = "\<lparr>tp_date = 19723, tp_avg_sentiment = Some (- 67 / 100), tp_article_count = 3,
       tp_positive_ratio = 3333 / 100\<rparr>"
  let ?S = "day_articles [article_A, article_B, article_D] 1 (Some ''customer'') 19723"
  have "?r \<in> set (calculate_sentiment_trend [article_A, article_B, article_D] 1
      (Some ''customer'') 19723 19723)"
    by (simp add: E1)
  from C6_trend_query_rows[of "[article_A, article_B, article_D]" 1 "Some ''customer''" 19723 19723,
      THEN conjunct2, THEN conjunct2, THEN conjunct2, THEN bspec, OF this]
  have "tp_article_count ?r = length ?S
      \<and> (\<exists>a. tp_avg_sentiment ?r = Some a
             \<and> rounded_2 a (of_int (\<Sum>na\<leftarrow>?S. sentiment_to_numeric (sentiment_score na))
                             / of_nat (length ?S)))
      \<and> rounded_2 (tp_positive_ratio ?r)
           (of_nat (length (filter (\<lambda>na. sentiment_to_numeric (sentiment_score na) > 0) ?S))
            / of_nat (length ?S) * 100)"
    by (simp only: trend_point.select_convs)
  note f = this[unfolded day_articles_sample]
  have l: "length ?S = 3" by (simp add: day_articles_sample)
  from f have r1: "rounded_2 (- 67 / 100) (- 2 / 3)"
    by (simp add: sample_defs sentiment_to_numeric_def)
  from f have r2: "rounded_2 (3333 / 100) (100 / 3)"
    by (simp add: sample_defs sentiment_to_numeric_def)
  show ?thesis by (intro conjI) (rule E1 l r1 r2)+
qed


subsection \<open>The store against the query\<close>

lemma trend_key_bucket_of [simp]: "trend_key (bucket_of nas c s d) = (c, Some s, d)"
  by (simp add: trend_key_def bucket_of_def Let_def)




lemma sentiment_trends_insert:
  "sentiment_trends (insert_news_article NEW db) =
     (if sentiment_score NEW \<noteq> None \<and> stakeholder_type NEW \<noteq> None
      then insert_on_conflict_update
             (bucket_of (news_articles db @ [NEW]) (company_id NEW) (the (stakeholder_type NEW))
                (DATE (published_date NEW)))
             (sentiment_trends db)
      else sentiment_trends db)"
proof (cases "sentiment_score NEW \<noteq> None \<and> stakeholder_type NEW \<noteq> None")
  case True
  then obtain s where s: "stakeholder_type NEW = Some s" by auto
  have "trend_select (news_articles db @ [NEW]) NEW
        = [bucket_of (news_articles db @ [NEW]) (company_id NEW) s (DATE (published_date NEW))]"
    using True s by (intro trend_select_bucket) simp_all
  then show ?thesis using True s
    by (simp add: insert_news_article_def trigger_update_sentiment_trends_def
        update_sentiment_trends_def)
next
  case False
  then show ?thesis
    by (auto simp: insert_news_article_def trigger_update_sentiment_trends_def)
qed





lemma same_bucket_lists:
  "bucket_articles nas' c s d = bucket_articles nas c s d \<Longrightarrow> same_bucket nas nas' c s d"
  by (simp add: same_bucket_def bucket_of_def)





lemma news_articles_trigger:
  "news_articles (trigger_update_sentiment_trends ev NEW db) = news_articles db"
  by (simp add: trigger_update_sentiment_trends_def update_sentiment_trends_def)



lemma sentiment_trends_trigger:
  assumes "NEW \<in> set (news_articles db)"
  shows "sentiment_trends (trigger_update_sentiment_trends ev NEW db) =
     (if event_matches ev \<and> classified NEW
      then insert_on_conflict_update
             (bucket_of (news_articles db) (company_id NEW) (the (stakeholder_type NEW))
                (DATE (published_date NEW)))
             (sentiment_trends db)
      else sentiment_trends db)"
proof (cases "event_matches ev \<and> classified NEW")
  case True
  then obtain s where s: "stakeholder_type NEW = Some s" by (auto simp: classified_def)
  have "trend_select (news_articles db) NEW
        = [bucket_of (news_articles db) (company_id NEW) s (DATE (published_date NEW))]"
    using True s assms by (intro trend_select_bucket) (simp_all add: classified_def)
  then show ?thesis using True s
    by (simp add: trigger_update_sentiment_trends_def update_sentiment_trends_def classified_def)
next
  case False
  then show ?thesis
    by (auto simp: trigger_update_sentiment_trends_def classified_def)
qed













lemma length_filter_snoc:
  "length (filter P (xs @ [x])) = length (filter P xs) + (if P x then 1 else 0)"
  by simp





lemmas write_defs = writes_relabel_def writes_move_def writes_unclassify_def
  writes_rounding_def writes_pending_def writes_redate_def
  article_A_investor_def article_A_negative_def article_A_unlabelled_def article_A_next_day_def

lemmas store_eval = run_writes_def empty_database_def update_news_article_def Let_def
  news_articles_insert sentiment_trends_insert sentiment_trends_trigger news_articles_trigger
  classified_def bucket_of_def bucket_articles_def conflicts_def sentiment_to_numeric_def
  DATE_def usecs_per_day_def










lemma unclassified_pending: "unclassified_labelled [article_A, article_C] 1 19723 = [article_C]"
  by (simp add: unclassified_labelled_def DATE_def usecs_per_day_def sample_defs)







lemma store_relabel: "sentiment_trends (run_writes writes_relabel)
  = [\<lparr>st_company_id = 1, st_stakeholder_type = Some ''customer'', st_date = 19723,
      total_articles = 2, positive_count = 0, negative_count = 2, neutral_count = 0,
      avg_sentiment_score = Some (- 3 / 2)\<rparr>]"
  by (simp add: store_eval write_defs sample_defs)









subsection \<open>The keyword analyzer\<close>

lemmas keyword_defs = analyze_keyword_frequency_def LIMIT_def keyword_ranking_def keyword_rows_def GROUP_BY_def
  keyword_from_def keyword_where_def keyword_stat_of_def keyword_order_def
  jsonb_array_elements_text_def AVG_def ROUND_def sentiment_to_numeric_def DATE_def
  usecs_per_day_def less_eq_prod_def article_K1_def article_K2_def article_K3_def article_K4_def
  article_T1_def article_T2_def as_grouped_def alpha_first_def zeta_first_def


lemma keyword_rows_Nil: "keyword_rows [] c d1 d2 = []"
  by (simp add: keyword_rows_def keyword_from_def)

lemma keyword_rows_Cons:
  "keyword_rows (na # nas) c d1 d2
   = (if keyword_where c d1 d2 na
      then map (\<lambda>k. (na, k)) (jsonb_array_elements_text (keywords_json na)) else [])
     @ keyword_rows nas c d1 d2"
  by (simp add: keyword_rows_def keyword_from_def filter_map comp_def)

lemma length_filter_snd_Pair:
  "length (filter (\<lambda>r. snd r = k) (map (\<lambda>k. (na, k)) ks)) = length (filter (\<lambda>k'. k' = k) ks)"
  by (induction ks) simp_all

lemma keyword_rows_mentions:
  "length (filter (\<lambda>r. snd r = k) (keyword_rows nas c d1 d2)) = keyword_mentions nas c d1 d2 k"
proof (induction nas)
  case Nil
  then show ?case by (simp add: keyword_rows_Nil keyword_mentions_def)
next
  case (Cons na nas)
  show ?case
  proof (cases "keywords_json na")
    case None
    then have "\<not> keyword_where c d1 d2 na" by (simp add: keyword_where_def)
    then show ?thesis using Cons.IH None
      by (simp add: keyword_rows_Cons keyword_mentions_def)
  next
    case (Some ks)
    show ?thesis
    proof (cases "keyword_where c d1 d2 na")
      case True
      then show ?thesis using Cons.IH Some
        by (simp add: keyword_rows_Cons keyword_mentions_def comp_def
            jsonb_array_elements_text_def keyword_where_def)
    next
      case False
      then have "\<not> (company_id na = c \<and> d1 \<le> DATE (published_date na)
                      \<and> DATE (published_date na) \<le> d2 \<and> sentiment_score na \<noteq> None)"
        using Some by (simp add: keyword_where_def)
      then show ?thesis using Cons.IH False
        by (auto simp: keyword_rows_Cons keyword_mentions_def)
    qed
  qed
qed

lemma keyword_groups:
  "map (\<lambda>(k, g). keyword_stat_of k g) (GROUP_BY snd R)
   = map (\<lambda>k. keyword_stat_of k (filter (\<lambda>r. snd r = k) R)) (remdups (map snd R))"
  by (simp add: GROUP_BY_def)

lemma distinct_map_insort_key:
  "distinct (map f (insort_key k x xs)) \<longleftrightarrow> f x \<notin> f ` set xs \<and> distinct (map f xs)"
  by (induction xs) (auto simp: set_insort_key)

lemma distinct_map_sort_key: "distinct (map f (sort_key k xs)) \<longleftrightarrow> distinct (map f xs)"
  by (induction xs) (simp_all add: distinct_map_insort_key)

lemma keyword_stat_of_simps:
  "kw_keyword (keyword_stat_of k g) = k"
  "kw_frequency (keyword_stat_of k g) = length g"
  by (simp_all add: keyword_stat_of_def)

lemma keyword_ranking_set:
  "set (keyword_ranking tie nas c d1 d2)
   = (\<lambda>k. keyword_stat_of k (filter (\<lambda>r. snd r = k) (keyword_rows nas c d1 d2)))
     ` {k. 2 \<le> keyword_mentions nas c d1 d2 k}"
proof -
  let ?R = "keyword_rows nas c d1 d2"
  let ?st = "\<lambda>k. keyword_stat_of k (filter (\<lambda>r. snd r = k) ?R)"
  have fr: "kw_frequency (?st k) = keyword_mentions nas c d1 d2 k" for k
    by (simp only: keyword_stat_of_simps keyword_rows_mentions)
  have in_R: "k \<in> snd ` set ?R" if "2 \<le> keyword_mentions nas c d1 d2 k" for k
  proof -
    from that have "length (filter (\<lambda>r. snd r = k) ?R) \<noteq> 0"
      by (simp only: keyword_rows_mentions)
    then have "filter (\<lambda>r. snd r = k) ?R \<noteq> []" by simp
    then obtain r where "r \<in> set ?R" "snd r = k"
      by (auto simp: filter_empty_conv)
    then show ?thesis by (metis imageI)
  qed
  have "set (keyword_ranking tie nas c d1 d2) = {r \<in> ?st ` snd ` set ?R. 2 \<le> kw_frequency r}"
    by (auto simp: keyword_ranking_def keyword_groups image_image)
  also have "\<dots> = ?st ` {k. 2 \<le> keyword_mentions nas c d1 d2 k}"
  proof (intro set_eqI iffI)
    fix r assume "r \<in> {r \<in> ?st ` snd ` set ?R. 2 \<le> kw_frequency r}"
    then obtain k where "r = ?st k" "2 \<le> kw_frequency r" by blast
    then show "r \<in> ?st ` {k. 2 \<le> keyword_mentions nas c d1 d2 k}" using fr by simp
  next
    fix r assume "r \<in> ?st ` {k. 2 \<le> keyword_mentions nas c d1 d2 k}"
    then obtain k where k: "r = ?st k" "2 \<le> keyword_mentions nas c d1 d2 k" by blast
    then have "2 \<le> kw_frequency r" using fr by simp
    then show "r \<in> {r \<in> ?st ` snd ` set ?R. 2 \<le> kw_frequency r}"
      using k(1) in_R[OF k(2)] by blast
  qed
  finally show ?thesis .
qed

lemma keyword_ranking_row:
  assumes "r \<in> set (keyword_ranking tie nas c d1 d2)"
  shows "kw_frequency r = keyword_mentions nas c d1 d2 (kw_keyword r)"
    and "2 \<le> kw_frequency r"
    and "kw_avg_sentiment r \<noteq> None"
proof -
  let ?R = "keyword_rows nas c d1 d2"
  from assms obtain k where k: "r = keyword_stat_of k (filter (\<lambda>r. snd r = k) ?R)"
    "2 \<le> keyword_mentions nas c d1 d2 k"
    unfolding keyword_ranking_set by blast
  have len: "length (filter (\<lambda>r. snd r = k) ?R) = keyword_mentions nas c d1 d2 k"
    by (rule keyword_rows_mentions)
  show "kw_frequency r = keyword_mentions nas c d1 d2 (kw_keyword r)"
    unfolding k(1) keyword_stat_of_simps by (rule len)
  show "2 \<le> kw_frequency r"
    unfolding k(1) keyword_stat_of_simps len by (rule k(2))
  have "length (filter (\<lambda>r. snd r = k) ?R) \<noteq> 0" unfolding len using k(2) by simp
  then have "filter (\<lambda>r. snd r = k) ?R \<noteq> []" by simp
  then show "kw_avg_sentiment r \<noteq> None" unfolding k(1) by (simp add: keyword_stat_of_def AVG_def)
qed

lemma keyword_ranking_distinct: "distinct (map kw_keyword (keyword_ranking tie nas c d1 d2))"
proof -
  let ?R = "keyword_rows nas c d1 d2"
  let ?G = "map (\<lambda>k. keyword_stat_of k (filter (\<lambda>r. snd r = k) ?R)) (remdups (map snd ?R))"
  have "map kw_keyword ?G = remdups (map snd ?R)"
    by (simp add: keyword_stat_of_def comp_def)
  then have "distinct (map kw_keyword ?G)" by (metis distinct_remdups)
  then have "distinct (map kw_keyword (filter (\<lambda>r. kw_frequency r \<ge> 2) ?G))"
    by (rule distinct_map_filter)
  then show ?thesis
    by (simp only: keyword_ranking_def keyword_groups distinct_map_sort_key)
qed

lemma keyword_ranking_keywords:
  "kw_keyword ` set (keyword_ranking tie nas c d1 d2) = {k. 2 \<le> keyword_mentions nas c d1 d2 k}"
  unfolding keyword_ranking_set image_image keyword_stat_of_simps by simp

lemma keyword_order_le:
  assumes "kw_avg_sentiment r \<noteq> None" "kw_avg_sentiment r' \<noteq> None"
  shows "keyword_order r \<le> keyword_order r' \<longleftrightarrow>
         kw_frequency r' < kw_frequency r
         \<or> (kw_frequency r' = kw_frequency r
            \<and> the (kw_avg_sentiment r') \<le> the (kw_avg_sentiment r))"
  using assms by (auto simp: keyword_order_def less_eq_prod_def)

lemma lex_le_fst: "(a, b) \<le> (a', b') \<Longrightarrow> a \<le> (a' :: 'a :: order)"
  by (auto simp: less_eq_prod_def)

lemma keyword_ranking_sorted:
  "sorted_wrt (\<lambda>r r'. kw_frequency r' < kw_frequency r
         \<or> (kw_frequency r' = kw_frequency r
            \<and> the (kw_avg_sentiment r') \<le> the (kw_avg_sentiment r)))
     (keyword_ranking tie nas c d1 d2)"
proof -
  have "sorted (map (\<lambda>r. (keyword_order r, tie r)) (keyword_ranking tie nas c d1 d2))"
    by (simp add: keyword_ranking_def)
  then have "sorted_wrt (\<lambda>r r'. (keyword_order r, tie r) \<le> (keyword_order r', tie r'))
      (keyword_ranking tie nas c d1 d2)"
    by (simp add: sorted_map)
  then show ?thesis
  proof (rule sorted_wrt_mono_rel[rotated])
    fix r r' assume "r \<in> set (keyword_ranking tie nas c d1 d2)"
      "r' \<in> set (keyword_ranking tie nas c d1 d2)"
      "(keyword_order r, tie r) \<le> (keyword_order r', tie r')"
    then have "keyword_order r \<le> keyword_order r'"
      "kw_avg_sentiment r \<noteq> None" "kw_avg_sentiment r' \<noteq> None"
      using keyword_ranking_row(3) lex_le_fst by blast+
    then show "kw_frequency r' < kw_frequency r
         \<or> (kw_frequency r' = kw_frequency r
            \<and> the (kw_avg_sentiment r') \<le> the (kw_avg_sentiment r))"
      using keyword_order_le[of r r'] by blast
  qed
qed

lemma analyze_keyword_frequency_negative:
  "p_limit < 0 \<Longrightarrow> analyze_keyword_frequency tie nas c d1 d2 p_limit = Inl Invalid_row_count_in_limit_clause"
  by (simp add: analyze_keyword_frequency_def LIMIT_def)


lemma keyword_sentiments_length:
  "length (keyword_sentiments nas c d1 d2 k) = keyword_mentions nas c d1 d2 k"
  unfolding keyword_sentiments_def keyword_mentions_def
  by (induction nas) (simp_all split: option.splits)

lemma map_sentiment_snd_Pair:
  "map (\<lambda>(na, keyword_item). sentiment_to_numeric (sentiment_score na))
     (filter (\<lambda>r. snd r = k) (map (\<lambda>k. (na, k)) ks))
   = map (\<lambda>k'. sentiment_to_numeric (sentiment_score na)) (filter (\<lambda>k'. k' = k) ks)"
  by (induction ks) simp_all

lemma keyword_rows_sentiments:
  "map (\<lambda>(na, keyword_item). sentiment_to_numeric (sentiment_score na))
     (filter (\<lambda>r. snd r = k) (keyword_rows nas c d1 d2))
   = keyword_sentiments nas c d1 d2 k"
proof (induction nas)
  case Nil
  then show ?case by (simp add: keyword_rows_Nil keyword_sentiments_def)
next
  case (Cons na nas)
  show ?case
  proof (cases "keyword_where c d1 d2 na")
    case True
    then obtain ks where ks: "keywords_json na = Some ks"
      by (auto simp: keyword_where_def)
    have q: "company_id na = c \<and> d1 \<le> DATE (published_date na)
        \<and> DATE (published_date na) \<le> d2 \<and> sentiment_score na \<noteq> None"
      using True by (simp add: keyword_where_def)
    have "keyword_rows (na # nas) c d1 d2 = map (\<lambda>k. (na, k)) ks @ keyword_rows nas c d1 d2"
      using True ks by (simp add: keyword_rows_Cons jsonb_array_elements_text_def)
    moreover have "keyword_sentiments (na # nas) c d1 d2 k
        = map (\<lambda>k'. sentiment_to_numeric (sentiment_score na)) (filter (\<lambda>k'. k' = k) ks)
          @ keyword_sentiments nas c d1 d2 k"
      using q ks by (simp add: keyword_sentiments_def)
    ultimately show ?thesis
      using Cons.IH by (simp only: filter_append map_append map_sentiment_snd_Pair)
  next
    case False
    have rows: "keyword_rows (na # nas) c d1 d2 = keyword_rows nas c d1 d2"
      using False by (simp add: keyword_rows_Cons)
    have "keyword_sentiments (na # nas) c d1 d2 k = keyword_sentiments nas c d1 d2 k"
    proof (cases "keywords_json na")
      case None
      then show ?thesis by (simp add: keyword_sentiments_def)
    next
      case (Some ks)
      then have "\<not> (company_id na = c \<and> d1 \<le> DATE (published_date na)
        \<and> DATE (published_date na) \<le> d2 \<and> sentiment_score na \<noteq> None)"
        using False by (simp add: keyword_where_def)
      then show ?thesis by (auto simp: keyword_sentiments_def)
    qed
    then show ?thesis using Cons.IH rows by simp
  qed
qed

lemma keyword_ranking_avg:
  assumes "r \<in> set (keyword_ranking tie nas c d1 d2)"
  shows "\<exists>a. kw_avg_sentiment r = Some a
           \<and> rounded_2 a (of_int (sum_list (keyword_sentiments nas c d1 d2 (kw_keyword r)))
                           / of_nat (keyword_mentions nas c d1 d2 (kw_keyword r)))"
proof -
  let ?R = "keyword_rows nas c d1 d2"
  from assms obtain k where k: "r = keyword_stat_of k (filter (\<lambda>r. snd r = k) ?R)"
    "2 \<le> keyword_mentions nas c d1 d2 k"
    unfolding keyword_ranking_set by blast
  let ?vs = "map (\<lambda>(na, keyword_item). sentiment_to_numeric (sentiment_score na))
               (filter (\<lambda>r. snd r = k) ?R)"
  have vs: "?vs = keyword_sentiments nas c d1 d2 k" by (rule keyword_rows_sentiments)
  have len: "length (keyword_sentiments nas c d1 d2 k) = keyword_mentions nas c d1 d2 k"
    by (rule keyword_sentiments_length)
  have ne: "keyword_sentiments nas c d1 d2 k \<noteq> []" using len k(2) by auto
  have key: "kw_keyword r = k" unfolding k(1) by (simp add: keyword_stat_of_def)
  have "kw_avg_sentiment r = map_option (\<lambda>v. ROUND v 2) (AVG ?vs)"
    unfolding k(1) by (simp add: keyword_stat_of_def)
  also have "\<dots> = Some (ROUND (of_int (sum_list (keyword_sentiments nas c d1 d2 k))
                            / of_nat (keyword_mentions nas c d1 d2 k)) 2)"
    unfolding vs using ne len by (simp add: AVG_def)
  finally show ?thesis unfolding key using ROUND_rounded_2 by blast
qed

text \<open>
  Claim C7, as amended. For a limit that is not negative, and whatever order the executor
  gives to rows that agree on both sort keys, the analyzer returns the first `limit` rows
  (20 by default) of the ranking of the keywords mentioned at least twice in the range:
  rows in descending order of frequency and then of mean sentiment, one row for each
  keyword, with its number of mentions as frequency and, as mean, the mean mapped
  sentiment of its mentions rounded to two decimals. A keyword mentioned once never
  appears. A keyword mentioned twice appears, with frequency 2, when the ranking is not
  longer than the limit; otherwise LIMIT may cut it.
\<close>

theorem C7_keyword_ranking_limited:
  assumes "0 \<le> p_limit"
  shows "(let rows = take (nat p_limit) (keyword_ranking tie nas c d1 d2) in
      analyze_keyword_frequency tie nas c d1 d2 p_limit = Inr rows
    \<and> length rows \<le> nat p_limit
    \<and> sorted_wrt (\<lambda>r r'. kw_frequency r' < kw_frequency r
         \<or> (kw_frequency r' = kw_frequency r
            \<and> the (kw_avg_sentiment r') \<le> the (kw_avg_sentiment r))) rows
    \<and> distinct (map kw_keyword rows)
    \<and> (\<forall>r\<in>set rows. kw_frequency r = keyword_mentions nas c d1 d2 (kw_keyword r)
           \<and> 2 \<le> kw_frequency r
           \<and> (\<exists>a. kw_avg_sentiment r = Some a
                \<and> rounded_2 a (of_int (sum_list (keyword_sentiments nas c d1 d2 (kw_keyword r)))
                                / of_nat (keyword_mentions nas c d1 d2 (kw_keyword r)))))
    \<and> (\<forall>k. keyword_mentions nas c d1 d2 k < 2 \<longrightarrow> k \<notin> kw_keyword ` set rows)
    \<and> (\<forall>k. 2 \<le> keyword_mentions nas c d1 d2 k
            \<longrightarrow> length (keyword_ranking tie nas c d1 d2) \<le> nat p_limit
            \<longrightarrow> (\<exists>r\<in>set rows. kw_keyword r = k
                      \<and> kw_frequency r = keyword_mentions nas c d1 d2 k)))
    \<and> analyze_keyword_frequency_default tie nas c d1 d2
        = Inr (take 20 (keyword_ranking tie nas c d1 d2))"
proof -
  let ?full = "keyword_ranking tie nas c d1 d2"
  let ?rows = "take (nat p_limit) ?full"
  have sub: "set ?rows \<subseteq> set ?full" by (rule set_take_subset)
  have 1: "analyze_keyword_frequency tie nas c d1 d2 p_limit = Inr ?rows"
    using assms by (simp add: analyze_keyword_frequency_def LIMIT_def)
  have 2: "length ?rows \<le> nat p_limit" by simp
  have 3: "sorted_wrt (\<lambda>r r'. kw_frequency r' < kw_frequency r
         \<or> (kw_frequency r' = kw_frequency r
            \<and> the (kw_avg_sentiment r') \<le> the (kw_avg_sentiment r))) ?rows"
    using keyword_ranking_sorted by (rule sorted_wrt_take)
  have 4: "distinct (map kw_keyword ?rows)"
    using keyword_ranking_distinct[of tie nas c d1 d2] by (simp add: take_map[symmetric])
  have 5: "\<forall>r\<in>set ?rows. kw_frequency r = keyword_mentions nas c d1 d2 (kw_keyword r)
           \<and> 2 \<le> kw_frequency r
           \<and> (\<exists>a. kw_avg_sentiment r = Some a
                \<and> rounded_2 a (of_int (sum_list (keyword_sentiments nas c d1 d2 (kw_keyword r)))
                                / of_nat (keyword_mentions nas c d1 d2 (kw_keyword r))))"
  proof
    fix r assume "r \<in> set ?rows"
    then have r: "r \<in> set ?full" using sub by blast
    show "kw_frequency r = keyword_mentions nas c d1 d2 (kw_keyword r)
           \<and> 2 \<le> kw_frequency r
           \<and> (\<exists>a. kw_avg_sentiment r = Some a
                \<and> rounded_2 a (of_int (sum_list (keyword_sentiments nas c d1 d2 (kw_keyword r)))
                                / of_nat (keyword_mentions nas c d1 d2 (kw_keyword r))))"
      using keyword_ranking_row(1,2)[OF r] keyword_ranking_avg[OF r] by (intro conjI)
  qed
  have 6: "\<forall>k. keyword_mentions nas c d1 d2 k < 2 \<longrightarrow> k \<notin> kw_keyword ` set ?rows"
  proof (intro allI impI notI)
    fix k assume "keyword_mentions nas c d1 d2 k < 2" "k \<in> kw_keyword ` set ?rows"
    then obtain r where "r \<in> set ?rows" "kw_keyword r = k" by auto
    with 5 have "2 \<le> keyword_mentions nas c d1 d2 k" by auto
    with \<open>keyword_mentions nas c d1 d2 k < 2\<close> show False by simp
  qed
  have 7: "\<forall>k. 2 \<le> keyword_mentions nas c d1 d2 k
            \<longrightarrow> length ?full \<le> nat p_limit
            \<longrightarrow> (\<exists>r\<in>set ?rows. kw_keyword r = k
                      \<and> kw_frequency r = keyword_mentions nas c d1 d2 k)"
  proof (intro allI impI)
    fix k assume k: "2 \<le> keyword_mentions nas c d1 d2 k" and len: "length ?full \<le> nat p_limit"
    from k have "k \<in> kw_keyword ` set ?full" unfolding keyword_ranking_keywords by simp
    then obtain r where r: "r \<in> set ?full" "kw_keyword r = k" by auto
    moreover have "?rows = ?full" using len by simp
    ultimately show "\<exists>r\<in>set ?rows. kw_keyword r = k
                      \<and> kw_frequency r = keyword_mentions nas c d1 d2 k"
      using keyword_ranking_row(1)[OF r(1)] by auto
  qed
  have 8: "analyze_keyword_frequency_default tie nas c d1 d2 = Inr (take 20 ?full)"
    by (simp add: analyze_keyword_frequency_default_def analyze_keyword_frequency_def LIMIT_def)
  show ?thesis unfolding Let_def using 1 2 3 4 5 6 7 8 by blast
qed

text \<open>
  The sample: 'recall' is mentioned three times (mean -2/3), 'strike' twice (mean 1/2),
  'earnings' twice (mean 0) and 'bonus' once. No two rows agree on both sort keys, so
  the result is the same for every choice of the executor.
\<close>

lemma keyword_sample_mentions:
  "keyword_mentions [article_K1, article_K2, article_K3, article_K4] 1 19723 19726 ''bonus'' = 1"
  "keyword_mentions [article_K1, article_K2, article_K3, article_K4] 1 19723 19726 ''recall'' = 3"
  "keyword_mentions [article_K1, article_K2, article_K3, article_K4] 1 19723 19726 ''earnings'' = 2"
  "keyword_sentiments [article_K1, article_K2, article_K3, article_K4] 1 19723 19726 ''recall''
     = [1, - 1, - 2]"
  by (simp_all add: keyword_mentions_def keyword_sentiments_def DATE_def usecs_per_day_def
      sentiment_to_numeric_def article_K1_def article_K2_def article_K3_def article_K4_def)

lemma keyword_sample_ranking:
  "keyword_ranking tie [article_K1, article_K2, article_K3, article_K4] 1 19723 19726
   = [\<lparr>kw_keyword = ''recall'', kw_frequency = 3, kw_avg_sentiment = Some (- 67 / 100)\<rparr>,
      \<lparr>kw_keyword = ''strike'', kw_frequency = 2, kw_avg_sentiment = Some (1 / 2)\<rparr>,
      \<lparr>kw_keyword = ''earnings'', kw_frequency = 2, kw_avg_sentiment = Some 0\<rparr>]"
  by (simp add: keyword_defs)

lemma keyword_sample_limit_1:
  "analyze_keyword_frequency tie [article_K1, article_K2, article_K3, article_K4] 1 19723 19726 1
   = Inr [\<lparr>kw_keyword = ''recall'', kw_frequency = 3, kw_avg_sentiment = Some (- 67 / 100)\<rparr>]"
  by (simp add: analyze_keyword_frequency_def LIMIT_def keyword_sample_ranking)

text \<open>
  Two keywords that agree on frequency and mean come in either order, as the executor
  chooses, and LIMIT 1 keeps the one that comes first.
\<close>

lemma keyword_tie_either_order:
  "analyze_keyword_frequency alpha_first [article_T1, article_T2] 1 19723 19723 20
   = Inr [\<lparr>kw_keyword = ''alpha'', kw_frequency = 2, kw_avg_sentiment = Some 1\<rparr>,
          \<lparr>kw_keyword = ''zeta'', kw_frequency = 2, kw_avg_sentiment = Some 1\<rparr>]"
  "analyze_keyword_frequency zeta_first [article_T1, article_T2] 1 19723 19723 20
   = Inr [\<lparr>kw_keyword = ''zeta'', kw_frequency = 2, kw_avg_sentiment = Some 1\<rparr>,
          \<lparr>kw_keyword = ''alpha'', kw_frequency = 2, kw_avg_sentiment = Some 1\<rparr>]"
  "analyze_keyword_frequency alpha_first [article_T1, article_T2] 1 19723 19723 1
   = Inr [\<lparr>kw_keyword = ''alpha'', kw_frequency = 2, kw_avg_sentiment = Some 1\<rparr>]"
  "analyze_keyword_frequency zeta_first [article_T1, article_T2] 1 19723 19723 1
   = Inr [\<lparr>kw_keyword = ''zeta'', kw_frequency = 2, kw_avg_sentiment = Some 1\<rparr>]"
  by (simp_all add: keyword_defs)

text \<open>
  The claim as stated fails for a small limit: 'earnings' is mentioned twice, and limit 1
  returns the row of 'recall' only.
\<close>

theorem C7_counterexample:
  "keyword_mentions [article_K1, article_K2, article_K3, article_K4] 1 19723 19726 ''earnings'' = 2
   \<and> analyze_keyword_frequency as_grouped [article_K1, article_K2, article_K3, article_K4]
        1 19723 19726 1
     = Inr [\<lparr>kw_keyword = ''recall'', kw_frequency = 3, kw_avg_sentiment = Some (- 67 / 100)\<rparr>]"
  by (simp add: keyword_sample_limit_1 keyword_sample_mentions)

theorem C7_witness:
  "analyze_keyword_frequency as_grouped [article_K1, article_K2, article_K3, article_K4]
        1 19723 19726 20
    = Inr [\<lparr>kw_keyword = ''recall'', kw_frequency = 3, kw_avg_sentiment = Some (- 67 / 100)\<rparr>,
           \<lparr>kw_keyword = ''strike'', kw_frequency = 2, kw_avg_sentiment = Some (1 / 2)\<rparr>,
           \<lparr>kw_keyword = ''earnings'', kw_frequency = 2, kw_avg_sentiment = Some 0\<rparr>]
   \<and> keyword_mentions [article_K1, article_K2, article_K3, article_K4] 1 19723 19726 ''bonus'' = 1
   \<and> ''bonus'' \<notin> kw_keyword ` set (take 20
        (keyword_ranking as_grouped [article_K1, article_K2, article_K3, article_K4] 1 19723 19726))
   \<and> rounded_2 (- 67 / 100) (- 2 / 3)"
proof -
  let ?nas = "[article_K1, article_K2, article_K3, article_K4]"
  let ?r = "\<lparr>kw_keyword = ''recall'', kw_frequency = 3, kw_avg_sentiment = Some (- 67 / 100)\<rparr>"
  have "(0::int) \<le> 20" by simp
  note t = C7_keyword_ranking_limited[OF this, of as_grouped ?nas 1 19723 19726, unfolded Let_def]
  have a: "analyze_keyword_frequency as_grouped ?nas 1 19723 19726 20
      = Inr (take (nat 20) (keyword_ranking as_grouped ?nas 1 19723 19726))"
    by (rule t[THEN conjunct1, THEN conjunct1])
  have rows: "\<forall>r\<in>set (take (nat 20) (keyword_ranking as_grouped ?nas 1 19723 19726)).
      kw_frequency r = keyword_mentions ?nas 1 19723 19726 (kw_keyword r)
           \<and> 2 \<le> kw_frequency r
           \<and> (\<exists>a. kw_avg_sentiment r = Some a
                \<and> rounded_2 a (of_int (sum_list (keyword_sentiments ?nas 1 19723 19726 (kw_keyword r)))
                                / of_nat (keyword_mentions ?nas 1 19723 19726 (kw_keyword r))))"
    by (rule t[THEN conjunct1, THEN conjunct2, THEN conjunct2, THEN conjunct2, THEN conjunct2,
          THEN conjunct1])
  have once: "\<forall>k. keyword_mentions ?nas 1 19723 19726 k < 2
     \<longrightarrow> k \<notin> kw_keyword ` set (take (nat 20) (keyword_ranking as_grouped ?nas 1 19723 19726))"
    by (rule t[THEN conjunct1, THEN conjunct2, THEN conjunct2, THEN conjunct2, THEN conjunct2,
          THEN conjunct2, THEN conjunct1])
  have "?r \<in> set (take (nat 20) (keyword_ranking as_grouped ?nas 1 19723 19726))"
    by (simp add: keyword_sample_ranking)
  note rows[THEN bspec, OF this, THEN conjunct2, THEN conjunct2,
      unfolded keyword_stat.select_convs keyword_sample_mentions]
  then have r: "rounded_2 (- 67 / 100) (- 2 / 3)"
    by simp
  have b: "''bonus'' \<notin> kw_keyword ` set (take 20 (keyword_ranking as_grouped ?nas 1 19723 19726))"
    using once keyword_sample_mentions(1) by simp
  have a': "analyze_keyword_frequency as_grouped ?nas 1 19723 19726 20
    = Inr [\<lparr>kw_keyword = ''recall'', kw_frequency = 3, kw_avg_sentiment = Some (- 67 / 100)\<rparr>,
           \<lparr>kw_keyword = ''strike'', kw_frequency = 2, kw_avg_sentiment = Some (1 / 2)\<rparr>,
           \<lparr>kw_keyword = ''earnings'', kw_frequency = 2, kw_avg_sentiment = Some 0\<rparr>]"
    using a by (simp add: keyword_sample_ranking)
  show ?thesis by (intro conjI) (rule a' keyword_sample_mentions(1) b r)+
qed

subsection \<open>The company summary\<close>

lemmas summary_defs = company_sentiment_summary_def as_listed_def by_id_desc_def GROUP_BY_def summary_from_def active_def
  left_join_articles_def summary_row_of_def na_sentiment_def published_since_def MAX_agg_def
  minus_days_def usecs_per_day_def AVG_def ROUND_def sentiment_to_numeric_def
  company_X_def company_Y_def company_Z_def article_A_def article_U_def


lemma summary_sample:
  "company_sentiment_summary as_listed 19740 [company_X, company_Y, company_Z] [article_A, article_U]
   = [\<lparr>cs_company_id = 1, cs_company_name = ''Acme'', cs_stock_code = Some ''000001'',
        cs_total_articles = 2, cs_articles_last_7days = 0, cs_articles_last_30days = 2,
        cs_avg_sentiment_all_time = Some (1 / 2), cs_avg_sentiment_7days = None,
        cs_avg_sentiment_30days = Some (1 / 2),
        cs_latest_article_date = Some 1704067200000000\<rparr>,
      \<lparr>cs_company_id = 2, cs_company_name = ''Borealis'', cs_stock_code = None,
        cs_total_articles = 0, cs_articles_last_7days = 0, cs_articles_last_30days = 0,
        cs_avg_sentiment_all_time = Some 0, cs_avg_sentiment_7days = None,
        cs_avg_sentiment_30days = None, cs_latest_article_date = None\<rparr>]"
  by (simp add: summary_defs)

lemma remdups_const_append:
  "xs \<noteq> [] \<Longrightarrow> \<forall>x\<in>set xs. x = k \<Longrightarrow> k \<notin> set ys \<Longrightarrow> remdups (xs @ ys) = k # remdups ys"
proof (induction xs)
  case Nil
  then show ?case by simp
next
  case (Cons x xs)
  have x: "x = k" using Cons.prems(2) by simp
  have all: "\<forall>x\<in>set xs. x = k" using Cons.prems(2) by simp
  show ?case
  proof (cases "xs = []")
    case True
    then show ?thesis using x Cons.prems(3) by simp
  next
    case False
    then obtain y where y: "y \<in> set xs" by (cases xs) auto
    from all y have "y = k" by (rule bspec)
    with y have "k \<in> set xs" by simp
    moreover have "remdups (xs @ ys) = k # remdups ys"
      using Cons.IH[OF False all Cons.prems(3)] .
    ultimately show ?thesis unfolding x by simp
  qed
qed

lemma GROUP_BY_block:
  assumes "xs \<noteq> []" "\<forall>r\<in>set xs. f r = k" "\<forall>r\<in>set ys. f r \<noteq> k"
  shows "GROUP_BY f (xs @ ys) = (k, xs) # GROUP_BY f ys"
proof -
  have "remdups (map f xs @ map f ys) = k # remdups (map f ys)"
    using assms by (intro remdups_const_append) auto
  moreover have "filter (\<lambda>r. f r = k) xs = xs" "filter (\<lambda>r. f r = k) ys = []"
    using assms(2,3) by (simp_all add: filter_empty_conv)
  moreover have "map (\<lambda>k'. (k', filter (\<lambda>r. f r = k') xs @ filter (\<lambda>r. f r = k') ys))
                   (remdups (map f ys))
                 = map (\<lambda>k'. (k', filter (\<lambda>r. f r = k') ys)) (remdups (map f ys))"
  proof (rule map_cong[OF refl])
    fix k' assume "k' \<in> set (remdups (map f ys))"
    then have "k' \<noteq> k" using assms(3) by auto
    then have "filter (\<lambda>r. f r = k') xs = []" using assms(2) by (simp add: filter_empty_conv)
    then show "(k', filter (\<lambda>r. f r = k') xs @ filter (\<lambda>r. f r = k') ys)
               = (k', filter (\<lambda>r. f r = k') ys)" by simp
  qed
  ultimately show ?thesis by (simp add: GROUP_BY_def)
qed

lemma left_join_articles_rows:
  "left_join_articles c nas \<noteq> []" "\<forall>row\<in>set (left_join_articles c nas). fst row = c"
  by (auto simp: left_join_articles_def)

lemma summary_from_eq:
  "summary_from companies nas
   = concat (map (\<lambda>c. left_join_articles c nas) (filter active companies))"
proof (induction companies)
  case Nil
  then show ?case by (simp add: summary_from_def)
next
  case (Cons c cs)
  have "filter (\<lambda>(c, na). active c) (left_join_articles c nas)
        = (if active c then left_join_articles c nas else [])"
  proof (cases "active c")
    case True
    then have "\<forall>row\<in>set (left_join_articles c nas). (\<lambda>(c, na). active c) row"
      using left_join_articles_rows(2)[of c nas] by (simp add: split_beta)
    then show ?thesis using True by simp
  next
    case False
    then have "\<forall>row\<in>set (left_join_articles c nas). \<not> (\<lambda>(c, na). active c) row"
      using left_join_articles_rows(2)[of c nas] by (simp add: split_beta)
    then show ?thesis using False by (simp only: filter_False if_False)
  qed
  then show ?case using Cons by (simp add: summary_from_def)
qed

lemma GROUP_BY_companies:
  assumes "distinct (map c_id cs)"
  shows "GROUP_BY (\<lambda>(c, na). (c_id c, c_name c, stock_code c))
           (concat (map (\<lambda>c. left_join_articles c nas) cs))
         = map (\<lambda>c. ((c_id c, c_name c, stock_code c), left_join_articles c nas)) cs"
  using assms
proof (induction cs)
  case Nil
  then show ?case by (simp add: GROUP_BY_def)
next
  case (Cons c cs)
  let ?f = "\<lambda>(c, na :: news_article option). (c_id c, c_name c, stock_code c)"
  let ?k = "(c_id c, c_name c, stock_code c)"
  have 1: "\<forall>r\<in>set (left_join_articles c nas). ?f r = ?k"
    using left_join_articles_rows(2)[of c nas] by (auto simp: split_beta)
  have 2: "\<forall>r\<in>set (concat (map (\<lambda>c. left_join_articles c nas) cs)). ?f r \<noteq> ?k"
  proof
    fix r assume "r \<in> set (concat (map (\<lambda>c. left_join_articles c nas) cs))"
    then obtain c' where c': "c' \<in> set cs" "r \<in> set (left_join_articles c' nas)" by auto
    then have "fst r = c'" using left_join_articles_rows(2) by blast
    moreover have "c_id c \<notin> c_id ` set cs" using Cons.prems by simp
    then have "c_id c' \<noteq> c_id c" using c'(1) by (metis imageI)
    ultimately show "?f r \<noteq> ?k" by (simp add: split_beta)
  qed
  have "distinct (map c_id cs)" using Cons.prems by simp
  from GROUP_BY_block[OF left_join_articles_rows(1) 1 2] Cons.IH[OF this]
  show ?case by (simp only: list.map concat.simps)
qed

lemma company_sentiment_summary_eq:
  assumes "distinct (map c_id companies)"
  shows "company_sentiment_summary ord today companies nas
         = sort_key ord (map (\<lambda>c. summary_row_of today (c_id c, c_name c, stock_code c)
                      (left_join_articles c nas))
             (filter active companies))"
proof -
  have "distinct (map c_id (filter active companies))"
    using assms by (rule distinct_map_filter)
  from GROUP_BY_companies[OF this] show ?thesis
    by (simp add: company_sentiment_summary_def summary_from_eq comp_def)
qed

lemma left_join_articles_eq:
  "left_join_articles c nas =
     (if company_articles nas (c_id c) = [] then [(c, None)]
      else map (\<lambda>na. (c, Some na)) (company_articles nas (c_id c)))"
proof -
  have "filter (\<lambda>na. c_id c = company_id na) nas = company_articles nas (c_id c)"
    unfolding company_articles_def by (rule filter_cong) auto
  then show ?thesis by (simp add: left_join_articles_def)
qed

lemma published_since_Some: "published_since ts (c, Some na) = (published_date na \<ge> ts)"
  by (simp add: published_since_def)

lemma filter_published_since:
  "filter (published_since ts) (map (\<lambda>na. (c, Some na)) A)
   = map (\<lambda>na. (c, Some na)) (filter (\<lambda>na. published_date na \<ge> ts) A)"
  by (induction A) (simp_all add: published_since_Some)

lemma map_na_sentiment:
  "map na_sentiment (map (\<lambda>na. (c, Some na)) A)
   = map (\<lambda>na. sentiment_to_numeric (sentiment_score na)) A"
  by (simp add: na_sentiment_def comp_def)

lemma AVG_mean: "AVG (map (\<lambda>na. sentiment_to_numeric (sentiment_score na)) A)
   = (if A = [] then None else Some (mean_sentiment A))"
  by (simp add: AVG_def mean_sentiment_def)

lemma ROUND_zero: "ROUND 0 s = 0"
  by (simp add: ROUND_def)

lemma window_count:
  "length (filter (published_since ts) (left_join_articles c nas))
   = length (filter (\<lambda>na. published_date na \<ge> ts) (company_articles nas (c_id c)))"
  by (simp add: left_join_articles_eq filter_published_since published_since_def)

lemma window_avg:
  "AVG (map na_sentiment (filter (published_since ts) (left_join_articles c nas)))
   = (if filter (\<lambda>na. published_date na \<ge> ts) (company_articles nas (c_id c)) = [] then None
      else Some (mean_sentiment (filter (\<lambda>na. published_date na \<ge> ts) (company_articles nas (c_id c)))))"
proof (cases "company_articles nas (c_id c) = []")
  case True
  then show ?thesis by (simp add: left_join_articles_eq published_since_def AVG_def)
next
  case False
  then show ?thesis
    by (simp only: left_join_articles_eq if_False filter_published_since map_na_sentiment AVG_mean)
qed

lemma all_time_avg:
  "AVG (map na_sentiment (left_join_articles c nas))
   = (if company_articles nas (c_id c) = [] then Some 0
      else Some (mean_sentiment (company_articles nas (c_id c))))"
proof (cases "company_articles nas (c_id c) = []")
  case True
  then show ?thesis
    by (simp add: left_join_articles_eq na_sentiment_def AVG_def sentiment_to_numeric_def)
next
  case False
  then show ?thesis
    by (simp only: left_join_articles_eq if_False map_na_sentiment AVG_mean)
qed

lemma summary_row_fields:
  fixes c nas today
  defines "r \<equiv> summary_row_of today (c_id c, c_name c, stock_code c) (left_join_articles c nas)"
  shows "cs_company_id r = c_id c"
    and "cs_total_articles r = length (company_articles nas (c_id c))"
    and "cs_articles_last_7days r = length (recent_articles nas (c_id c) today 7)"
    and "cs_articles_last_30days r = length (recent_articles nas (c_id c) today 30)"
    and "cs_avg_sentiment_all_time r =
           (if company_articles nas (c_id c) = [] then Some 0
            else Some (ROUND (mean_sentiment (company_articles nas (c_id c))) 2))"
    and "cs_avg_sentiment_7days r =
           (if recent_articles nas (c_id c) today 7 = [] then None
            else Some (ROUND (mean_sentiment (recent_articles nas (c_id c) today 7)) 2))"
    and "cs_avg_sentiment_30days r =
           (if recent_articles nas (c_id c) today 30 = [] then None
            else Some (ROUND (mean_sentiment (recent_articles nas (c_id c) today 30)) 2))"
    and "company_articles nas (c_id c) = [] \<Longrightarrow> cs_latest_article_date r = None"
proof -
  show "cs_company_id r = c_id c" by (simp add: r_def summary_row_of_def)
  show "cs_total_articles r = length (company_articles nas (c_id c))"
    by (simp add: r_def summary_row_of_def left_join_articles_eq)
  show "cs_articles_last_7days r = length (recent_articles nas (c_id c) today 7)"
    by (simp add: r_def summary_row_of_def window_count recent_articles_def)
  show "cs_articles_last_30days r = length (recent_articles nas (c_id c) today 30)"
    by (simp add: r_def summary_row_of_def window_count recent_articles_def)
  show "cs_avg_sentiment_all_time r =
           (if company_articles nas (c_id c) = [] then Some 0
            else Some (ROUND (mean_sentiment (company_articles nas (c_id c))) 2))"
    by (simp add: r_def summary_row_of_def all_time_avg ROUND_zero)
  show "cs_avg_sentiment_7days r =
           (if recent_articles nas (c_id c) today 7 = [] then None
            else Some (ROUND (mean_sentiment (recent_articles nas (c_id c) today 7)) 2))"
    by (simp add: r_def summary_row_of_def window_avg recent_articles_def)
  show "cs_avg_sentiment_30days r =
           (if recent_articles nas (c_id c) today 30 = [] then None
            else Some (ROUND (mean_sentiment (recent_articles nas (c_id c) today 30)) 2))"
    by (simp add: r_def summary_row_of_def window_avg recent_articles_def)
  show "company_articles nas (c_id c) = [] \<Longrightarrow> cs_latest_article_date r = None"
    by (simp add: r_def summary_row_of_def left_join_articles_eq MAX_agg_def)
qed

lemma summary_rows_set:
  assumes "distinct (map c_id companies)"
  shows "set (company_sentiment_summary ord today companies nas)
         = (\<lambda>c. summary_row_of today (c_id c, c_name c, stock_code c) (left_join_articles c nas))
             ` {c \<in> set companies. active c}"
  unfolding company_sentiment_summary_eq[OF assms] by simp




lemma sum_labelled:
  "(\<Sum>na\<leftarrow>as. sentiment_to_numeric (sentiment_score na)) = labelled_sum as"
  by (induction as) (simp_all add: labelled_sum_def sentiment_to_numeric_def)

lemma mean_sentiment_labelled:
  "mean_sentiment as = of_int (labelled_sum as) / of_nat (length as)"
  by (simp add: mean_sentiment_def sum_labelled)



lemma sample_companies:
  "distinct (map c_id [company_X, company_Y, company_Z])"
  "active company_X" "active company_Y" "\<not> active company_Z"
  "c_id company_X = 1" "c_id company_Y = 2"
  by (simp_all add: active_def company_X_def company_Y_def company_Z_def)

lemma sample_company_articles:
  "company_articles [article_A, article_U] 1 = [article_A, article_U]"
  "company_articles [article_A, article_U] 2 = []"
  "recent_articles [article_A, article_U] 1 19740 7 = []"
  "recent_articles [article_A, article_U] 1 19740 30 = [article_A, article_U]"
  "labelled_sum [article_A, article_U] = 1"
  "sentiment_score article_U = None"
  by (simp_all add: company_articles_def recent_articles_def labelled_sum_def minus_days_def
      usecs_per_day_def sentiment_to_numeric_def article_A_def article_U_def)



text \<open>
  Claim C10. \<^verbatim>\<open>sentiment_to_numeric\<close> maps the NULL label to 0, and the row of an active
  company counts all of the company's articles, labelled or not, in its total and in its
  7-day and 30-day counts. Each of its three means is, rounded to two decimals, the sum of
  the mapped labels of the labelled articles of the company (in the window) divided by the
  number of all of them: an article without label adds 0 to the sum and 1 to the divisor.
\<close>

theorem C10_unlabelled_articles_counted:
  assumes "distinct (map c_id companies)" "c \<in> set companies" "active c"
  shows "sentiment_to_numeric None = 0
    \<and> (\<exists>r\<in>set (company_sentiment_summary ord today companies nas).
         cs_company_id r = c_id c
       \<and> cs_total_articles r = length (company_articles nas (c_id c))
       \<and> cs_articles_last_7days r = length (recent_articles nas (c_id c) today 7)
       \<and> cs_articles_last_30days r = length (recent_articles nas (c_id c) today 30)
       \<and> (company_articles nas (c_id c) \<noteq> [] \<longrightarrow>
            (\<exists>a. cs_avg_sentiment_all_time r = Some a
               \<and> rounded_2 a (of_int (labelled_sum (company_articles nas (c_id c)))
                              / of_nat (length (company_articles nas (c_id c))))))
       \<and> (recent_articles nas (c_id c) today 7 \<noteq> [] \<longrightarrow>
            (\<exists>a. cs_avg_sentiment_7days r = Some a
               \<and> rounded_2 a (of_int (labelled_sum (recent_articles nas (c_id c) today 7))
                              / of_nat (length (recent_articles nas (c_id c) today 7)))))
       \<and> (recent_articles nas (c_id c) today 30 \<noteq> [] \<longrightarrow>
            (\<exists>a. cs_avg_sentiment_30days r = Some a
               \<and> rounded_2 a (of_int (labelled_sum (recent_articles nas (c_id c) today 30))
                              / of_nat (length (recent_articles nas (c_id c) today 30))))))"
proof
  show "sentiment_to_numeric None = 0" by (simp add: sentiment_to_numeric_def)
next
  define r where "r = summary_row_of today (c_id c, c_name c, stock_code c) (left_join_articles c nas)"
  note f = summary_row_fields[where c = c and nas = nas and today = today, folded r_def]
  have mem: "r \<in> set (company_sentiment_summary ord today companies nas)"
    unfolding summary_rows_set[OF assms(1)] r_def using assms(2,3) by blast
  have "cs_company_id r = c_id c
       \<and> cs_total_articles r = length (company_articles nas (c_id c))
       \<and> cs_articles_last_7days r = length (recent_articles nas (c_id c) today 7)
       \<and> cs_articles_last_30days r = length (recent_articles nas (c_id c) today 30)
       \<and> (company_articles nas (c_id c) \<noteq> [] \<longrightarrow>
            (\<exists>a. cs_avg_sentiment_all_time r = Some a
               \<and> rounded_2 a (of_int (labelled_sum (company_articles nas (c_id c)))
                              / of_nat (length (company_articles nas (c_id c))))))
       \<and> (recent_articles nas (c_id c) today 7 \<noteq> [] \<longrightarrow>
            (\<exists>a. cs_avg_sentiment_7days r = Some a
               \<and> rounded_2 a (of_int (labelled_sum (recent_articles nas (c_id c) today 7))
                              / of_nat (length (recent_articles nas (c_id c) today 7)))))
       \<and> (recent_articles nas (c_id c) today 30 \<noteq> [] \<longrightarrow>
            (\<exists>a. cs_avg_sentiment_30days r = Some a
               \<and> rounded_2 a (of_int (labelled_sum (recent_articles nas (c_id c) today 30))
                              / of_nat (length (recent_articles nas (c_id c) today 30)))))"
    by (simp add: f(1,2,3,4,5,6,7) mean_sentiment_labelled[symmetric] ROUND_rounded_2)
  with mem show "\<exists>r\<in>set (company_sentiment_summary ord today companies nas).
         cs_company_id r = c_id c
       \<and> cs_total_articles r = length (company_articles nas (c_id c))
       \<and> cs_articles_last_7days r = length (recent_articles nas (c_id c) today 7)
       \<and> cs_articles_last_30days r = length (recent_articles nas (c_id c) today 30)
       \<and> (company_articles nas (c_id c) \<noteq> [] \<longrightarrow>
            (\<exists>a. cs_avg_sentiment_all_time r = Some a
               \<and> rounded_2 a (of_int (labelled_sum (company_articles nas (c_id c)))
                              / of_nat (length (company_articles nas (c_id c))))))
       \<and> (recent_articles nas (c_id c) today 7 \<noteq> [] \<longrightarrow>
            (\<exists>a. cs_avg_sentiment_7days r = Some a
               \<and> rounded_2 a (of_int (labelled_sum (recent_articles nas (c_id c) today 7))
                              / of_nat (length (recent_articles nas (c_id c) today 7)))))
       \<and> (recent_articles nas (c_id c) today 30 \<noteq> [] \<longrightarrow>
            (\<exists>a. cs_avg_sentiment_30days r = Some a
               \<and> rounded_2 a (of_int (labelled_sum (recent_articles nas (c_id c) today 30))
                              / of_nat (length (recent_articles nas (c_id c) today 30)))))"
    by (rule bexI[rotated])
qed

theorem C10_witness:
  "distinct (map c_id [company_X, company_Y, company_Z])
   \<and> company_X \<in> set [company_X, company_Y, company_Z] \<and> active company_X
   \<and> company_articles [article_A, article_U] 1 = [article_A, article_U]
   \<and> sentiment_score article_U = None
   \<and> labelled_sum [article_A, article_U] = 1
   \<and> (\<exists>r\<in>set (company_sentiment_summary as_listed 19740 [company_X, company_Y, company_Z]
                  [article_A, article_U]).
         cs_company_id r = 1 \<and> cs_total_articles r = 2
       \<and> cs_articles_last_7days r = 0 \<and> cs_articles_last_30days r = 2
       \<and> (\<exists>a. cs_avg_sentiment_all_time r = Some a \<and> rounded_2 a (1 / 2))
       \<and> (\<exists>a. cs_avg_sentiment_30days r = Some a \<and> rounded_2 a (1 / 2)))
   \<and> map (\<lambda>r. (cs_total_articles r, cs_avg_sentiment_all_time r, cs_avg_sentiment_30days r))
       (company_sentiment_summary as_listed 19740 [company_X, company_Y, company_Z]
          [article_A, article_U]) = [(2, Some (1 / 2), Some (1 / 2)), (0, Some 0, None)]"
proof -
  have x: "company_X \<in> set [company_X, company_Y, company_Z]" by simp
  note t = C10_unlabelled_articles_counted[OF sample_companies(1) x sample_companies(2),
      of as_listed 19740 "[article_A, article_U]", THEN conjunct2,
      unfolded sample_companies(5) sample_company_articles]
  have ex: "\<exists>r\<in>set (company_sentiment_summary as_listed 19740 [company_X, company_Y, company_Z]
                  [article_A, article_U]).
         cs_company_id r = 1 \<and> cs_total_articles r = 2
       \<and> cs_articles_last_7days r = 0 \<and> cs_articles_last_30days r = 2
       \<and> (\<exists>a. cs_avg_sentiment_all_time r = Some a \<and> rounded_2 a (1 / 2))
       \<and> (\<exists>a. cs_avg_sentiment_30days r = Some a \<and> rounded_2 a (1 / 2))"
    using t by (simp add: numeral_2_eq_2)
  have rows: "map (\<lambda>r. (cs_total_articles r, cs_avg_sentiment_all_time r, cs_avg_sentiment_30days r))
       (company_sentiment_summary as_listed 19740 [company_X, company_Y, company_Z]
          [article_A, article_U]) = [(2, Some (1 / 2), Some (1 / 2)), (0, Some 0, None)]"
    by (simp add: summary_sample)
  show ?thesis
    by (intro conjI) (rule sample_companies(1,2) x sample_company_articles(1,5,6) ex rows)+
qed

subsection \<open>The partition manager\<close>

lemmas partition_defs = create_monthly_partition_def create_table_if_not_exists_partition_of_def
  partition_name_of_def start_date_text_def text_of_int_def text_of_nat.simps digit_char_def
  LPAD_def truncate_identifier_def overlaps_def plus_one_month_def days_in_month_def
  leap_year_def date_key_def first_of_month_def first_of_next_month_def partitions_of_def
  date_in_sample_def catalog_parent_def catalog_clash_def catalog_january_def Let_def

lemma name_sample: "partition_name_of ''news_articles'' 2024 1 = ''news_articles_y2024m01''"
  by (simp add: partition_defs)

lemma text_sample: "start_date_text 2024 1 = ''2024-1-01''" "start_date_text 2024 13 = ''2024-13-01''"
  by (simp_all add: partition_defs)

lemma run_sample:
  "create_monthly_partition date_in_sample ''news_articles'' 2024 1 catalog_parent
   = Inr [(''news_articles'', Range_partitioned_table),
          (''news_articles_y2024m01'',
             Partition_of ''news_articles'' \<lparr>cd_year = 2024, cd_month = 1, cd_day = 1\<rparr>
                \<lparr>cd_year = 2024, cd_month = 2, cd_day = 1\<rparr>)]"
  by (simp add: partition_defs)

lemma run_december:
  "create_monthly_partition date_in_sample ''news_articles'' 2024 12 catalog_parent
   = Inr [(''news_articles'', Range_partitioned_table),
          (''news_articles_y2024m12'',
             Partition_of ''news_articles'' \<lparr>cd_year = 2024, cd_month = 12, cd_day = 1\<rparr>
                \<lparr>cd_year = 2025, cd_month = 1, cd_day = 1\<rparr>)]"
  by (simp add: partition_defs)

lemma run_clash:
  "create_monthly_partition date_in_sample ''news_articles'' 2024 1 catalog_clash = Inr catalog_clash"
  "partitions_of catalog_clash ''news_articles'' = []"
  by (simp_all add: partition_defs)

lemma run_missing:
  "create_monthly_partition date_in_sample ''news_articles'' 2024 1 [] = Inl Undefined_table"
  "create_monthly_partition date_in_sample ''news_articles'' 2024 13 catalog_parent = Inl Invalid_datetime"
  by (simp_all add: partition_defs)



lemma days_in_month_ge: "1 \<le> days_in_month y m"
  by (simp add: days_in_month_def)









end
